theory Spec2Isabelle
  imports Main
begin

section \<open>The prerender builder: data model\<close>

text \<open>
  The builder module of the repository (\<^verbatim>\<open>execute\<close>, \<^verbatim>\<open>_scheduleBuilds\<close>,
  \<^verbatim>\<open>_parallelRenderRoutes\<close>, \<^verbatim>\<open>_renderUniversal\<close>) is embedded as pure
  functions that return the outcome of a call together with the list of external
  effects performed, in order.
\<close>

subsection \<open>Thrown values, promises and the outcome of a call\<close>

text \<open>
  A thrown value, and the reason of a rejected promise, is any value: an \<^verbatim>\<open>Error\<close>
  object with its message, \<^verbatim>\<open>undefined\<close>, \<^verbatim>\<open>null\<close>, or another value that has no
  \<^verbatim>\<open>message\<close> property (a string, say, given by its text). A promise is described by
  how it settles: fulfilled with a value, rejected at some instant with a reason, or never
  settled. A call either returns, throws, or blocks for ever on a promise that never
  settles; it also leaves the list of external effects it performed.
\<close>

datatype exn = Error string | Thrown_undefined | Thrown_null | Thrown_value string

datatype 'a promise = Fulfilled 'a | Rejected nat exn | Pending

datatype 'a outcome = Returns 'a | Throws exn | Blocks

datatype role = Browser | Server

record Target =
  project :: string
  target :: string
  configuration :: "string option"

record BuilderOutput =
  success :: bool
  error :: "string option"

record BuildBuilderOutput = BuilderOutput +
  baseOutputPath :: "string option"
  outputPaths :: "string list"
  outputPath :: string

record ScheduleBuildsOutput = BuilderOutput +
  serverResult :: "BuildBuilderOutput option"
  browserResult :: "BuildBuilderOutput option"

datatype PrerenderBuilderOutput =
  BuildStageOutput BuilderOutput
| BrowserOutput BuildBuilderOutput

text \<open>
  A scheduled build: the promise of its result, and how the promise returned by a call
  of \<^verbatim>\<open>stop()\<close> settles.
\<close>

record BuilderRun =
  result :: "BuildBuilderOutput promise"
  stop :: "unit promise"

record BuilderContext =
  workspaceRoot :: string
  scheduleTarget :: "Target \<Rightarrow> (string \<times> bool) list \<Rightarrow> BuilderRun promise"

record PrerenderBuilderOptions =
  browserTarget :: string
  serverTarget :: string
  routesFile :: "string option"
  routes :: "string list option"
  numProcesses :: "int option"

text \<open>
  A forked render worker: the messages it sends, and which of its \<^verbatim>\<open>exit\<close> and
  \<^verbatim>\<open>error\<close> events comes first (fulfilled: \<^verbatim>\<open>exit\<close>; rejected: \<^verbatim>\<open>error\<close>;
  pending: neither ever fires).
\<close>

datatype WorkerReport =
  RenderSucceeded string nat
| RenderFailed string string

record ChildProcess =
  reports :: "WorkerReport list"
  ending :: "unit promise"

text \<open>
  What the module imports and does not define: the target parser of the build
  framework, \<^verbatim>\<open>getRoutes\<close> of \<^verbatim>\<open>./utils\<close>, the file system, the path functions, the
  number of processors (\<^verbatim>\<open>os.cpus().length\<close>), \<^verbatim>\<open>__dirname\<close> and \<^verbatim>\<open>fork\<close>.
  The file system is the one found when the call starts; what the workers write is not
  part of the model. A configured number of processes is an integer.
\<close>

record externals =
  targetFromTargetString :: "string \<Rightarrow> exn + Target"
  getRoutes :: "string \<Rightarrow> string option \<Rightarrow> string list option \<Rightarrow> exn + string list"
  readFileSync :: "string \<Rightarrow> exn + string"
  existsSync :: "string \<Rightarrow> bool"
  path_join :: "string list \<Rightarrow> string"
  path_relative :: "string \<Rightarrow> string \<Rightarrow> string"
  cpus :: nat
  dirname :: string
  fork :: "string \<Rightarrow> string list \<Rightarrow> ChildProcess"

datatype event =
  Scheduled Target "(string \<times> bool) list"
| Stopped role
| FileRead string
| ExistsChecked string
| Forked string "string list"
| LoggedInfo string
| LoggedError string

type_synonym 'a run = "'a outcome \<times> event list"

definition return_run :: "'a \<Rightarrow> 'a run" where
  "return_run x = (Returns x, [])"

definition throw :: "exn \<Rightarrow> 'a run" where
  "throw e = (Throws e, [])"

definition emit :: "event \<Rightarrow> unit run" where
  "emit ev = (Returns (), [ev])"

text \<open>
  \<^verbatim>\<open>e.message\<close>: the message of an \<^verbatim>\<open>Error\<close>, \<^verbatim>\<open>undefined\<close> for a value without
  that property, and a type error when \<^verbatim>\<open>e\<close> is \<^verbatim>\<open>undefined\<close> or \<^verbatim>\<open>null\<close>.
\<close>

definition cannot_read_message :: "string \<Rightarrow> exn" where
  "cannot_read_message what =
     Error (''Cannot read properties of '' @ what @ '' (reading '' @ [CHR 0x27] @ ''message''
            @ [CHR 0x27] @ '')'')"

definition read_message :: "exn \<Rightarrow> string option run" where
  "read_message e = (case e of
      Error msg \<Rightarrow> return_run (Some msg)
    | Thrown_undefined \<Rightarrow> throw (cannot_read_message ''undefined'')
    | Thrown_null \<Rightarrow> throw (cannot_read_message ''null'')
    | Thrown_value v \<Rightarrow> return_run None)"

definition lift :: "exn + 'a \<Rightarrow> 'a run" where
  "lift r = (case r of Inl e \<Rightarrow> (Throws e, []) | Inr x \<Rightarrow> (Returns x, []))"

definition await :: "'a promise \<Rightarrow> 'a run" where
  "await p = (case p of
      Fulfilled v \<Rightarrow> (Returns v, [])
    | Rejected t e \<Rightarrow> (Throws e, [])
    | Pending \<Rightarrow> (Blocks, []))"

definition bind_run :: "'a run \<Rightarrow> ('a \<Rightarrow> 'b run) \<Rightarrow> 'b run" where
  "bind_run m f = (case m of
      (Returns x, tr) \<Rightarrow> (case f x of (r, tr') \<Rightarrow> (r, tr @ tr'))
    | (Throws e, tr) \<Rightarrow> (Throws e, tr)
    | (Blocks, tr) \<Rightarrow> (Blocks, tr))"

text \<open>\<^verbatim>\<open>try { m } catch (e) { h e }\<close>: the handler runs when the block throws.\<close>

definition try_catch :: "'a run \<Rightarrow> (exn \<Rightarrow> 'a run) \<Rightarrow> 'a run" where
  "try_catch m h = (case m of
      (Throws e, tr) \<Rightarrow> (case h e of (r, tr') \<Rightarrow> (r, tr @ tr'))
    | (Returns x, tr) \<Rightarrow> (Returns x, tr)
    | (Blocks, tr) \<Rightarrow> (Blocks, tr))"

text \<open>
  \<^verbatim>\<open>try { m } finally { fin }\<close>: the finaliser runs once the block has returned or
  thrown, and not while the block is still blocked. When the finaliser throws, its
  error replaces the block's completion.
\<close>

definition try_finally :: "'a run \<Rightarrow> unit run \<Rightarrow> 'a run" where
  "try_finally m fin = (case m of
      (Blocks, tr) \<Rightarrow> (Blocks, tr)
    | (c, tr) \<Rightarrow> (case fin of
          (Returns u, tr') \<Rightarrow> (c, tr @ tr')
        | (Throws e, tr') \<Rightarrow> (Throws e, tr @ tr')
        | (Blocks, tr') \<Rightarrow> (Blocks, tr @ tr')))"

text \<open>
  \<^verbatim>\<open>Promise.all\<close> on a pair and on an array: rejected with the earliest rejection
  (the first in order among simultaneous ones), fulfilled when every promise is,
  and pending otherwise.
\<close>

definition Promise_all2 :: "'a promise \<Rightarrow> 'b promise \<Rightarrow> ('a \<times> 'b) promise" where
  "Promise_all2 p q = (case p of
      Rejected t e \<Rightarrow> (case q of
          Rejected t' e' \<Rightarrow> if t' < t then Rejected t' e' else Rejected t e
        | Fulfilled b \<Rightarrow> Rejected t e
        | Pending \<Rightarrow> Rejected t e)
    | Fulfilled a \<Rightarrow> (case q of
          Rejected t' e' \<Rightarrow> Rejected t' e'
        | Fulfilled b \<Rightarrow> Fulfilled (a, b)
        | Pending \<Rightarrow> Pending)
    | Pending \<Rightarrow> (case q of
          Rejected t' e' \<Rightarrow> Rejected t' e'
        | Fulfilled b \<Rightarrow> Pending
        | Pending \<Rightarrow> Pending))"

fun earliest_rejection :: "'a promise list \<Rightarrow> (nat \<times> exn) option" where
  "earliest_rejection [] = None"
| "earliest_rejection (Rejected t e # ps) =
     (case earliest_rejection ps of
        Some (t', e') \<Rightarrow> if t' < t then Some (t', e') else Some (t, e)
      | None \<Rightarrow> Some (t, e))"
| "earliest_rejection (Fulfilled v # ps) = earliest_rejection ps"
| "earliest_rejection (Pending # ps) = earliest_rejection ps"

fun fulfilled_values :: "'a promise list \<Rightarrow> 'a list option" where
  "fulfilled_values [] = Some []"
| "fulfilled_values (Fulfilled v # ps) =
     (case fulfilled_values ps of Some vs \<Rightarrow> Some (v # vs) | None \<Rightarrow> None)"
| "fulfilled_values (Rejected t e # ps) = None"
| "fulfilled_values (Pending # ps) = None"

definition Promise_all :: "'a promise list \<Rightarrow> 'a list promise" where
  "Promise_all ps = (case earliest_rejection ps of
      Some (t, e) \<Rightarrow> Rejected t e
    | None \<Rightarrow> (case fulfilled_values ps of
          Some vs \<Rightarrow> Fulfilled vs
        | None \<Rightarrow> Pending))"

text \<open>
  \<^verbatim>\<open>a || b\<close> on optional strings and on optional numbers: the left operand unless
  it is undefined, the empty string or zero.
\<close>

definition or_string :: "string option \<Rightarrow> string option \<Rightarrow> string option" where
  "or_string a b = (case a of None \<Rightarrow> b | Some s \<Rightarrow> if s = [] then b else Some s)"

definition or_number :: "int option \<Rightarrow> int \<Rightarrow> int" where
  "or_number a b = (case a of None \<Rightarrow> b | Some n \<Rightarrow> if n = 0 then b else n)"

fun string_of_nat :: "nat \<Rightarrow> string" where
  "string_of_nat n =
     (if n < 10 then [char_of (48 + n)]
      else string_of_nat (n div 10) @ [char_of (48 + n mod 10)])"

declare string_of_nat.simps [simp del]

subsection \<open>Route partitioning\<close>

text \<open>
  Modelled from the spec: \<^verbatim>\<open>groupArray\<close> is imported from \<^verbatim>\<open>./utils\<close>, which is not
  among the sources. The specification asks for N contiguous groups whose concatenation
  is the route list and whose sizes differ by at most one, with the example of 10 routes
  and 3 workers giving sizes 4, 3, 3, and trailing groups empty when N exceeds the number
  of routes. The definition below hands each group in turn the ceiling of the remaining
  routes over the remaining groups.
\<close>

fun groupArray_from :: "'a list \<Rightarrow> nat \<Rightarrow> 'a list list" where
  "groupArray_from xs 0 = []"
| "groupArray_from xs (Suc k) =
     (let size = (length xs + k) div Suc k
      in take size xs # groupArray_from (drop size xs) k)"

definition groupArray :: "'a list \<Rightarrow> int \<Rightarrow> 'a list list" where
  "groupArray array numGroups = groupArray_from array (nat numGroups)"

subsection \<open>The build scheduler\<close>

text \<open>
  \<^verbatim>\<open>_scheduleBuilds\<close>. The two targets are parsed and scheduled before the
  \<^verbatim>\<open>try\<close> block; the block awaits both results; the \<^verbatim>\<open>catch\<close> clause turns an
  error into a failure result that carries \<^verbatim>\<open>e.message\<close>; the \<^verbatim>\<open>finally\<close> clause calls \<^verbatim>\<open>stop()\<close> on both
  runs and awaits both.
\<close>

definition scheduleBuilds ::
  "externals \<Rightarrow> PrerenderBuilderOptions \<Rightarrow> BuilderContext \<Rightarrow> ScheduleBuildsOutput run" where
  "scheduleBuilds ext options context =
     bind_run (lift (targetFromTargetString ext (browserTarget options))) (\<lambda>browserTgt.
     bind_run (lift (targetFromTargetString ext (serverTarget options))) (\<lambda>serverTgt.
     bind_run (emit (Scheduled browserTgt [(''watch'', False), (''serviceWorker'', False)])) (\<lambda>_.
     bind_run (await (scheduleTarget context browserTgt
                        [(''watch'', False), (''serviceWorker'', False)])) (\<lambda>browserTargetRun.
     bind_run (emit (Scheduled serverTgt [(''watch'', False)])) (\<lambda>_.
     bind_run (await (scheduleTarget context serverTgt [(''watch'', False)])) (\<lambda>serverTargetRun.
     try_finally
       (try_catch
          (bind_run (await (Promise_all2 (result browserTargetRun) (result serverTargetRun)))
             (\<lambda>(browserRes, serverRes).
                return_run
                  \<lparr>success = success browserRes \<and> success serverRes
                       \<and> baseOutputPath browserRes \<noteq> None,
                   error = or_string (error browserRes) (error serverRes),
                   serverResult = Some serverRes,
                   browserResult = Some browserRes\<rparr>))
          (\<lambda>e. bind_run (read_message e) (\<lambda>msg.
                return_run
                  \<lparr>success = False, error = msg,
                   serverResult = None, browserResult = None\<rparr>)))
       (bind_run (emit (Stopped Browser)) (\<lambda>_.
        bind_run (emit (Stopped Server)) (\<lambda>_.
        bind_run (await (Promise_all2 (stop browserTargetRun) (stop serverTargetRun)))
          (\<lambda>_. return_run ()))))))))))"

subsection \<open>The render dispatcher\<close>

fun log_report :: "WorkerReport \<Rightarrow> event list" where
  "log_report (RenderSucceeded outputIndexPath bytes) =
     [LoggedInfo (''CREATE '' @ outputIndexPath @ '' ('' @ string_of_nat bytes @ '' bytes)'')]"
| "log_report (RenderFailed outputIndexPath msg) =
     [LoggedError (''Error: '' @ msg), LoggedError (''Unable to render '' @ outputIndexPath)]"

text \<open>
  \<^verbatim>\<open>_parallelRenderRoutes\<close>: one worker is forked for each group, with the index
  document, the server bundle path, the output path and the routes of the group as
  arguments, and the promises of the workers are returned. The workers' messages are
  logged as they arrive; the trace lists them worker by worker.
\<close>

definition parallelRenderRoutes ::
  "externals \<Rightarrow> string list list \<Rightarrow> BuilderContext \<Rightarrow> string \<Rightarrow> string \<Rightarrow> string
     \<Rightarrow> unit promise list run" where
  "parallelRenderRoutes ext groupedRoutes context indexHtml outPath serverBundlePath =
     (let workerFile = path_join ext [dirname ext, ''render.js''];
          argv = (\<lambda>rs. indexHtml # serverBundlePath # outPath # rs)
      in (Returns (map (\<lambda>rs. ending (fork ext workerFile (argv rs))) groupedRoutes),
          map (\<lambda>rs. Forked workerFile (argv rs)) groupedRoutes
          @ concat (map (\<lambda>rs. concat (map log_report (reports (fork ext workerFile (argv rs)))))
                      groupedRoutes)))"

text \<open>
  The body of the loop of \<^verbatim>\<open>_renderUniversal\<close>, for one output path. The server
  build's \<open>baseOutputPath\<close> defaults to the empty string; \<^verbatim>\<open>path.relative\<close> throws
  a type error when the browser build's \<open>baseOutputPath\<close> is undefined.
\<close>

definition renderOutputPath ::
  "externals \<Rightarrow> string list \<Rightarrow> int \<Rightarrow> BuilderContext \<Rightarrow> BuildBuilderOutput
     \<Rightarrow> BuildBuilderOutput \<Rightarrow> string \<Rightarrow> unit run" where
  "renderOutputPath ext rs numProcs context browserRes serverRes outPath =
     (let browserIndexOutputPath = path_join ext [outPath, ''index.html'']
      in
     bind_run (emit (FileRead browserIndexOutputPath)) (\<lambda>_.
     bind_run (lift (readFileSync ext browserIndexOutputPath)) (\<lambda>indexHtml.
     (let base = (case baseOutputPath serverRes of None \<Rightarrow> [] | Some b \<Rightarrow> b)
      in
     bind_run (case baseOutputPath browserRes of
                 None \<Rightarrow> throw (Error (''The '' @ [CHR 0x22] @ ''from'' @ [CHR 0x22]
                            @ '' argument must be of type string. Received undefined''))
               | Some browserBase \<Rightarrow> return_run (path_relative ext browserBase outPath))
       (\<lambda>localeDirectory.
     (let serverBundlePath = path_join ext [base, localeDirectory, ''main.js'']
      in
     bind_run (emit (ExistsChecked serverBundlePath)) (\<lambda>_.
     if \<not> existsSync ext serverBundlePath
     then throw (Error (''Could not find the main bundle: '' @ serverBundlePath))
     else
       (let groupedRoutes = groupArray rs numProcs
        in
       bind_run (emit (LoggedInfo (CHR 0x0A # ''Prerendering '' @ string_of_nat (length rs)
                                     @ '' route(s) to '' @ outPath))) (\<lambda>_.
       bind_run (parallelRenderRoutes ext groupedRoutes context indexHtml outPath
                   serverBundlePath) (\<lambda>childProcesses.
       bind_run (await (Promise_all childProcesses)) (\<lambda>_. return_run ())))))))))))"

fun renderOutputPaths ::
  "externals \<Rightarrow> string list \<Rightarrow> int \<Rightarrow> BuilderContext \<Rightarrow> BuildBuilderOutput
     \<Rightarrow> BuildBuilderOutput \<Rightarrow> string list \<Rightarrow> unit run" where
  "renderOutputPaths ext rs numProcs context browserRes serverRes [] = return_run ()"
| "renderOutputPaths ext rs numProcs context browserRes serverRes (outPath # rest) =
     bind_run (renderOutputPath ext rs numProcs context browserRes serverRes outPath)
       (\<lambda>_. renderOutputPaths ext rs numProcs context browserRes serverRes rest)"

definition renderUniversal ::
  "externals \<Rightarrow> string list \<Rightarrow> int \<Rightarrow> BuilderContext \<Rightarrow> BuildBuilderOutput
     \<Rightarrow> BuildBuilderOutput \<Rightarrow> BuildBuilderOutput run" where
  "renderUniversal ext rs numProcs context browserRes serverRes =
     bind_run (renderOutputPaths ext rs numProcs context browserRes serverRes
                 (outputPaths browserRes))
       (\<lambda>_. return_run browserRes)"

subsection \<open>Top-level orchestration\<close>

text \<open>The value of the local constant \<^verbatim>\<open>numProcesses\<close> of \<^verbatim>\<open>execute\<close>.\<close>

definition execute_numProcesses ::
  "externals \<Rightarrow> PrerenderBuilderOptions \<Rightarrow> string list \<Rightarrow> int" where
  "execute_numProcesses ext options rs =
     min (or_number (numProcesses options) (int (cpus ext) - 1)) (int (length rs))"

definition execute ::
  "externals \<Rightarrow> PrerenderBuilderOptions \<Rightarrow> BuilderContext \<Rightarrow> PrerenderBuilderOutput run" where
  "execute ext options context =
     bind_run (lift (getRoutes ext (workspaceRoot context) (routesFile options)
                       (routes options))) (\<lambda>rs.
     if length rs = 0 then throw (Error ''No routes found.'')
     else
     bind_run (scheduleBuilds ext options context) (\<lambda>res.
     if \<not> success res \<or> browserResult res = None \<or> serverResult res = None
     then return_run (BuildStageOutput \<lparr>success = success res, error = error res\<rparr>)
     else
     bind_run (renderUniversal ext rs (execute_numProcesses ext options rs) context
                 (the (browserResult res)) (the (serverResult res)))
       (\<lambda>out. return_run (BrowserOutput out))))"

subsection \<open>Observations used to state the properties\<close>

text \<open>
  The two runs that \<^verbatim>\<open>_scheduleBuilds\<close> obtains before it enters its \<^verbatim>\<open>try\<close> block:
  defined when both target strings parse and both \<^verbatim>\<open>scheduleTarget\<close> promises fulfil.
\<close>

definition scheduled_runs ::
  "externals \<Rightarrow> PrerenderBuilderOptions \<Rightarrow> BuilderContext \<Rightarrow> (BuilderRun \<times> BuilderRun) option" where
  "scheduled_runs ext options context =
     (case targetFromTargetString ext (browserTarget options) of
        Inl e \<Rightarrow> None
      | Inr browserTgt \<Rightarrow>
     (case targetFromTargetString ext (serverTarget options) of
        Inl e \<Rightarrow> None
      | Inr serverTgt \<Rightarrow>
     (case scheduleTarget context browserTgt [(''watch'', False), (''serviceWorker'', False)] of
        Fulfilled browserTargetRun \<Rightarrow>
          (case scheduleTarget context serverTgt [(''watch'', False)] of
             Fulfilled serverTargetRun \<Rightarrow> Some (browserTargetRun, serverTargetRun)
           | Rejected t e \<Rightarrow> None
           | Pending \<Rightarrow> None)
      | Rejected t e \<Rightarrow> None
      | Pending \<Rightarrow> None)))"

fun is_fork :: "event \<Rightarrow> bool" where
  "is_fork (Forked file argv) = True"
| "is_fork ev = False"

subsection \<open>A concrete workspace\<close>

text \<open>
  A project with a browser target \<^verbatim>\<open>app:build\<close> and a server target \<^verbatim>\<open>app:server\<close>,
  two locales, and path functions that behave as those of the platform do on the
  normalised absolute paths used here.
\<close>

definition example_join :: "string list \<Rightarrow> string" where
  "example_join segments =
     (case filter (\<lambda>s. s \<noteq> []) segments of
        [] \<Rightarrow> ''.''
      | s # ss \<Rightarrow> foldl (\<lambda>acc x. acc @ ''/'' @ x) s ss)"

definition example_relative :: "string \<Rightarrow> string \<Rightarrow> string" where
  "example_relative base dest =
     (if take (length base + 1) dest = base @ ''/'' then drop (length base + 1) dest else dest)"

definition example_browser_output :: BuildBuilderOutput where
  "example_browser_output =
     \<lparr>success = True, error = None, baseOutputPath = Some ''/dist/browser'',
      outputPaths = [''/dist/browser/en'', ''/dist/browser/fr''],
      outputPath = ''/dist/browser''\<rparr>"

definition example_server_output :: BuildBuilderOutput where
  "example_server_output =
     \<lparr>success = True, error = None, baseOutputPath = Some ''/dist/server'',
      outputPaths = [''/dist/server/en'', ''/dist/server/fr''],
      outputPath = ''/dist/server''\<rparr>"

definition example_options :: PrerenderBuilderOptions where
  "example_options =
     \<lparr>browserTarget = ''app:build'', serverTarget = ''app:server'',
      routesFile = None, routes = Some [''/'', ''/about'', ''/contact''],
      numProcesses = None\<rparr>"

definition example_context :: "BuilderRun promise \<Rightarrow> BuilderRun promise \<Rightarrow> BuilderContext" where
  "example_context browserRun serverRun =
     \<lparr>workspaceRoot = ''/ws'',
      scheduleTarget = (\<lambda>t overrides. if target t = ''build'' then browserRun else serverRun)\<rparr>"

definition example_ext :: externals where
  "example_ext =
     \<lparr>targetFromTargetString = (\<lambda>s.
         if s = ''app:build'' then Inr \<lparr>project = ''app'', target = ''build'', configuration = None\<rparr>
         else if s = ''app:server''
         then Inr \<lparr>project = ''app'', target = ''server'', configuration = None\<rparr>
         else Inl (Error ''Invalid target string'')),
      getRoutes = (\<lambda>root file explicit. Inr (case explicit of None \<Rightarrow> [] | Some rs \<Rightarrow> rs)),
      readFileSync = (\<lambda>p. Inr ''<app-root></app-root>''),
      existsSync = (\<lambda>p. p = ''/dist/server/en/main.js'' \<or> p = ''/dist/server/fr/main.js''),
      path_join = example_join,
      path_relative = example_relative,
      cpus = 8,
      dirname = ''/builders/prerender'',
      fork = (\<lambda>file argv. \<lparr>reports = [], ending = Fulfilled ()\<rparr>)\<rparr>"

definition example_run :: "BuildBuilderOutput \<Rightarrow> BuilderRun promise" where
  "example_run out = Fulfilled \<lparr>result = Fulfilled out, stop = Fulfilled ()\<rparr>"

section \<open>Properties\<close>

subsection \<open>Route partitioning\<close>

lemma length_groupArray_from: "length (groupArray_from xs k) = k"
  by (induction k arbitrary: xs) (simp_all add: Let_def)

lemma concat_groupArray_from: "concat (groupArray_from xs (Suc k)) = xs"
proof (induction k arbitrary: xs)
  case 0
  show ?case by simp
next
  case (Suc k)
  have "concat (groupArray_from xs (Suc (Suc k))) =
        take ((length xs + Suc k) div Suc (Suc k)) xs @
        concat (groupArray_from (drop ((length xs + Suc k) div Suc (Suc k)) xs) (Suc k))"
    by (simp add: Let_def)
  also have "\<dots> = xs"
    by (simp only: Suc.IH append_take_drop_id)
  finally show ?case .
qed

lemma ceil_bounds:
  fixes m k :: nat
  defines "s \<equiv> (m + k) div Suc k"
  shows "s * k + s \<le> m + k" and "m \<le> s * k + s"
proof -
  have "s * Suc k \<le> m + k"
    unfolding s_def by (rule div_times_less_eq_dividend)
  then show "s * k + s \<le> m + k" by simp
  have "m + k < Suc s * Suc k"
    unfolding s_def using dividend_less_times_div[of "Suc k" "m + k"] by (simp add: mult.commute)
  then show "m \<le> s * k + s" by simp
qed

lemma ceil_step_le: "(m + k) div Suc k \<le> (m::nat)"
proof (cases "(m + k) div Suc k")
  case 0 then show ?thesis by simp
next
  case (Suc j)
  have "k \<le> (m + k) div Suc k * k" using Suc by simp
  with ceil_bounds(1)[of m k] show ?thesis by linarith
qed

lemma ceil_step_lower: "lo * k + lo \<le> m \<Longrightarrow> lo \<le> (m + k) div Suc k"
proof (rule ccontr)
  assume a: "lo * k + lo \<le> m" and "\<not> lo \<le> (m + k) div Suc k"
  then have "Suc ((m + k) div Suc k) \<le> lo" by simp
  then have "Suc ((m + k) div Suc k) * k \<le> lo * k" by (rule mult_le_mono1)
  with a \<open>Suc ((m + k) div Suc k) \<le> lo\<close> ceil_bounds(2)[of m k] show False by simp
qed

lemma ceil_step_upper: "m \<le> hi * k + hi \<Longrightarrow> (m + k) div Suc k \<le> hi"
proof (rule ccontr)
  assume a: "m \<le> hi * k + hi" and "\<not> (m + k) div Suc k \<le> hi"
  then have b: "Suc hi \<le> (m + k) div Suc k" by simp
  then have "Suc hi * k \<le> (m + k) div Suc k * k" by (rule mult_le_mono1)
  with a b ceil_bounds(1)[of m k] show False by simp
qed

lemma rest_lower: "lo * k + lo \<le> m \<Longrightarrow> lo * k \<le> m - (m + k) div Suc k"
proof (cases "(m + k) div Suc k \<le> lo")
  case True
  assume "lo * k + lo \<le> m"
  with True show ?thesis by linarith
next
  case False
  then have "Suc lo \<le> (m + k) div Suc k" by simp
  then have "Suc lo * k \<le> (m + k) div Suc k * k" by (rule mult_le_mono1)
  with ceil_bounds(1)[of m k] show ?thesis by simp
qed

lemma rest_upper: "m \<le> hi * k + hi \<Longrightarrow> m - (m + k) div Suc k \<le> hi * k"
proof (cases "hi \<le> (m + k) div Suc k")
  case True
  assume "m \<le> hi * k + hi"
  with True show ?thesis by linarith
next
  case False
  then have "Suc ((m + k) div Suc k) \<le> hi" by simp
  then have "Suc ((m + k) div Suc k) * k \<le> hi * k" by (rule mult_le_mono1)
  with ceil_bounds(2)[of m k] show ?thesis by simp
qed

lemma group_sizes_between:
  "lo * k \<le> length xs \<Longrightarrow> length xs \<le> hi * k \<Longrightarrow> g \<in> set (groupArray_from xs k)
   \<Longrightarrow> lo \<le> length g \<and> length g \<le> hi"
proof (induction k arbitrary: xs)
  case 0
  then show ?case by simp
next
  case (Suc k)
  let ?s = "(length xs + k) div Suc k"
  have lo: "lo * k + lo \<le> length xs" and hi: "length xs \<le> hi * k + hi"
    using Suc.prems(1,2) by simp_all
  from Suc.prems(3) consider "g = take ?s xs" | "g \<in> set (groupArray_from (drop ?s xs) k)"
    by (auto simp: Let_def)
  then show ?case
  proof cases
    case 1
    have "length g = ?s" using 1 ceil_step_le[of "length xs" k] by simp
    with ceil_step_lower[OF lo] ceil_step_upper[OF hi] show ?thesis by simp
  next
    case 2
    have "lo * k \<le> length (drop ?s xs)" using rest_lower[OF lo] by simp
    moreover have "length (drop ?s xs) \<le> hi * k" using rest_upper[OF hi] by simp
    ultimately show ?thesis using 2 by (rule Suc.IH)
  qed
qed

lemma floor_ceil_facts:
  fixes n N :: nat
  assumes "0 < N"
  shows "(n div N) * N \<le> n" and "n \<le> ((n + N - 1) div N) * N"
    and "(n + N - 1) div N \<le> Suc (n div N)"
proof -
  show "(n div N) * N \<le> n" by (rule div_times_less_eq_dividend)
  obtain k where k: "N = Suc k" using assms by (cases N) auto
  show "n \<le> ((n + N - 1) div N) * N"
    using ceil_bounds(2)[of n k] k by simp
  have "n < Suc (n div N) * N"
    using dividend_less_times_div[of N n] assms by (simp add: mult.commute)
  then have "n \<le> Suc (n div N) * k + Suc (n div N)" using k by simp
  from ceil_step_upper[OF this] show "(n + N - 1) div N \<le> Suc (n div N)" using k by simp
qed

text \<open>
  C1. For every route list \<open>R\<close> and every worker count \<open>N\<close> with \<open>1 \<le> N \<le> |R|\<close>,
  \<open>groupArray R N\<close> consists of \<open>N\<close> groups whose concatenation in order is \<open>R\<close>; the
  size of every group is the floor or the ceiling of \<open>|R| / N\<close>, and the sizes of two
  groups differ by at most one.
\<close>

theorem groupArray_partition:
  assumes "1 \<le> N" and "N \<le> int (length R)"
  shows "concat (groupArray R N) = R
       \<and> length (groupArray R N) = nat N
       \<and> (\<forall>g \<in> set (groupArray R N).
            length g = length R div nat N \<or> length g = (length R + nat N - 1) div nat N)
       \<and> (\<forall>g \<in> set (groupArray R N). \<forall>h \<in> set (groupArray R N).
            length g \<le> length h + 1)"
proof -
  obtain k where k: "nat N = Suc k" using assms(1) by (cases "nat N") auto
  let ?lo = "length R div nat N" and ?hi = "(length R + nat N - 1) div nat N"
  have pos: "0 < nat N" using assms(1) by simp
  have between: "?lo \<le> length g \<and> length g \<le> ?hi" if "g \<in> set (groupArray R N)" for g
    using floor_ceil_facts(1,2)[OF pos, of "length R"] that
    unfolding groupArray_def by (intro group_sizes_between) simp_all
  have near: "?hi \<le> Suc ?lo" by (rule floor_ceil_facts(3)[OF pos])
  have "concat (groupArray R N) = R"
    unfolding groupArray_def k by (rule concat_groupArray_from)
  moreover have "length (groupArray R N) = nat N"
    unfolding groupArray_def by (rule length_groupArray_from)
  moreover have "\<forall>g \<in> set (groupArray R N). length g = ?lo \<or> length g = ?hi"
  proof
    fix g assume "g \<in> set (groupArray R N)"
    then show "length g = ?lo \<or> length g = ?hi"
      using between[of g] near by linarith
  qed
  moreover have "\<forall>g \<in> set (groupArray R N). \<forall>h \<in> set (groupArray R N).
      length g \<le> length h + 1"
  proof (intro ballI)
    fix g h assume "g \<in> set (groupArray R N)" and "h \<in> set (groupArray R N)"
    then show "length g \<le> length h + 1"
      using between[of g] between[of h] near by linarith
  qed
  ultimately show ?thesis by blast
qed


theorem groupArray_partition_witness:
  "(1::int) \<le> 3 \<and> (3::int) \<le> int (length [''/a'', ''/b'', ''/c'', ''/d'', ''/e'', ''/f'', ''/g''])
   \<and> groupArray [''/a'', ''/b'', ''/c'', ''/d'', ''/e'', ''/f'', ''/g''] 3
       = [[''/a'', ''/b'', ''/c''], [''/d'', ''/e''], [''/f'', ''/g'']]
   \<and> concat (groupArray [''/a'', ''/b'', ''/c'', ''/d'', ''/e'', ''/f'', ''/g''] 3)
       = [''/a'', ''/b'', ''/c'', ''/d'', ''/e'', ''/f'', ''/g'']
   \<and> length (groupArray [''/a'', ''/b'', ''/c'', ''/d'', ''/e'', ''/f'', ''/g''] 3) = nat 3"
proof -
  have g: "groupArray [''/a'', ''/b'', ''/c'', ''/d'', ''/e'', ''/f'', ''/g''] 3
       = [[''/a'', ''/b'', ''/c''], [''/d'', ''/e''], [''/f'', ''/g'']]"
    by code_simp
  have h1: "(1::int) \<le> 3" by simp
  have h2: "(3::int) \<le> int (length [''/a'', ''/b'', ''/c'', ''/d'', ''/e'', ''/f'', ''/g''])"
    by simp
  from groupArray_partition [OF h1 h2] g h1 h2 show ?thesis by blast
qed

subsection \<open>The build scheduler\<close>

lemmas run_defs = bind_run_def lift_def emit_def await_def try_finally_def try_catch_def
  return_run_def throw_def

lemma scheduled_runs_Some:
  assumes "scheduled_runs ext options ctx = Some (brun, srun)"
  obtains bt st where
    "targetFromTargetString ext (browserTarget options) = Inr bt"
    "targetFromTargetString ext (serverTarget options) = Inr st"
    "scheduleTarget ctx bt [(''watch'', False), (''serviceWorker'', False)] = Fulfilled brun"
    "scheduleTarget ctx st [(''watch'', False)] = Fulfilled srun"
  using assms
  by (auto simp add: scheduled_runs_def split: sum.splits promise.splits)

lemma scheduleBuilds_outcome:
  assumes "scheduled_runs ext options ctx = Some (brun, srun)"
  shows "fst (scheduleBuilds ext options ctx) =
    (case Promise_all2 (result brun) (result srun) of
       Pending \<Rightarrow> Blocks
     | Fulfilled (b, s) \<Rightarrow>
        (case Promise_all2 (stop brun) (stop srun) of
           Pending \<Rightarrow> Blocks
         | Rejected t e \<Rightarrow> Throws e
         | Fulfilled u \<Rightarrow> Returns
             \<lparr>success = success b \<and> success s \<and> baseOutputPath b \<noteq> None,
              error = or_string (error b) (error s),
              serverResult = Some s, browserResult = Some b\<rparr>)
     | Rejected t e \<Rightarrow>
        (case Promise_all2 (stop brun) (stop srun) of
           Pending \<Rightarrow> Blocks
         | Rejected t' e' \<Rightarrow> Throws e'
         | Fulfilled u \<Rightarrow>
            (case e of
               Error msg \<Rightarrow> Returns
                 \<lparr>success = False, error = Some msg,
                  serverResult = None, browserResult = None\<rparr>
             | Thrown_undefined \<Rightarrow> Throws (cannot_read_message ''undefined'')
             | Thrown_null \<Rightarrow> Throws (cannot_read_message ''null'')
             | Thrown_value v \<Rightarrow> Returns
                 \<lparr>success = False, error = None,
                  serverResult = None, browserResult = None\<rparr>)))"
proof -
  from assms obtain bt st where
    "targetFromTargetString ext (browserTarget options) = Inr bt"
    "targetFromTargetString ext (serverTarget options) = Inr st"
    "scheduleTarget ctx bt [(''watch'', False), (''serviceWorker'', False)] = Fulfilled brun"
    "scheduleTarget ctx st [(''watch'', False)] = Fulfilled srun"
    by (rule scheduled_runs_Some)
  then show ?thesis
    by (simp add: scheduleBuilds_def run_defs read_message_def
          split: promise.splits prod.splits exn.splits)
qed

lemma scheduleBuilds_trace:
  assumes "scheduled_runs ext options ctx = Some (brun, srun)"
  shows "\<exists>bt st. snd (scheduleBuilds ext options ctx) =
     [Scheduled bt [(''watch'', False), (''serviceWorker'', False)],
      Scheduled st [(''watch'', False)]]
     @ (if Promise_all2 (result brun) (result srun) = Pending then []
        else [Stopped Browser, Stopped Server])"
proof -
  from assms obtain bt st where
    "targetFromTargetString ext (browserTarget options) = Inr bt"
    "targetFromTargetString ext (serverTarget options) = Inr st"
    "scheduleTarget ctx bt [(''watch'', False), (''serviceWorker'', False)] = Fulfilled brun"
    "scheduleTarget ctx st [(''watch'', False)] = Fulfilled srun"
    by (rule scheduled_runs_Some)
  then have "snd (scheduleBuilds ext options ctx) =
     [Scheduled bt [(''watch'', False), (''serviceWorker'', False)],
      Scheduled st [(''watch'', False)]]
     @ (if Promise_all2 (result brun) (result srun) = Pending then []
        else [Stopped Browser, Stopped Server])"
    by (simp add: scheduleBuilds_def run_defs read_message_def
          split: promise.splits prod.splits exn.splits)
  then show ?thesis by blast
qed

lemma scheduleBuilds_unscheduled:
  assumes "scheduled_runs ext options ctx = None"
  shows "fst (scheduleBuilds ext options ctx) \<noteq> Returns r"
    and "Stopped w \<notin> set (snd (scheduleBuilds ext options ctx))"
  using assms
  by (auto simp add: scheduled_runs_def scheduleBuilds_def run_defs split: sum.splits promise.splits)

lemma Promise_all2_Fulfilled:
  "Promise_all2 p q = Fulfilled v \<longleftrightarrow> (\<exists>a b. p = Fulfilled a \<and> q = Fulfilled b \<and> v = (a, b))"
  by (auto simp: Promise_all2_def split: promise.splits)

text \<open>
  C2. Whenever \<^verbatim>\<open>_scheduleBuilds\<close> returns a result, its success flag is set if and only
  if both targets were scheduled, the browser build and the server build both resolved with
  \<open>success\<close> set, and the browser build's \<open>baseOutputPath\<close> is defined; and when
  both builds resolve and both \<^verbatim>\<open>stop()\<close> calls complete, it does return, with
  the success flag equal to that conjunction.
\<close>

theorem scheduleBuilds_success_iff:
  "(\<forall>r. fst (scheduleBuilds ext options ctx) = Returns r \<longrightarrow>
      (success r \<longleftrightarrow>
        (\<exists>brun srun b s. scheduled_runs ext options ctx = Some (brun, srun)
           \<and> result brun = Fulfilled b \<and> result srun = Fulfilled s
           \<and> success b \<and> success s \<and> baseOutputPath b \<noteq> None)))
   \<and> (\<forall>brun srun b s. scheduled_runs ext options ctx = Some (brun, srun)
         \<and> result brun = Fulfilled b \<and> result srun = Fulfilled s
         \<and> stop brun = Fulfilled () \<and> stop srun = Fulfilled ()
       \<longrightarrow> fst (scheduleBuilds ext options ctx) = Returns
             \<lparr>success = success b \<and> success s \<and> baseOutputPath b \<noteq> None,
              error = or_string (error b) (error s),
              serverResult = Some s, browserResult = Some b\<rparr>)"
proof (intro conjI allI impI)
  fix r assume ret: "fst (scheduleBuilds ext options ctx) = Returns r"
  show "success r \<longleftrightarrow>
        (\<exists>brun srun b s. scheduled_runs ext options ctx = Some (brun, srun)
           \<and> result brun = Fulfilled b \<and> result srun = Fulfilled s
           \<and> success b \<and> success s \<and> baseOutputPath b \<noteq> None)"
  proof (cases "scheduled_runs ext options ctx")
    case None
    with ret scheduleBuilds_unscheduled(1)[OF None, of r] show ?thesis by simp
  next
    case (Some runs)
    obtain brun srun where runs: "runs = (brun, srun)" by (cases runs)
    note out = scheduleBuilds_outcome[OF Some[unfolded runs]]
    show ?thesis
    proof (cases "Promise_all2 (result brun) (result srun)")
      case (Fulfilled v)
      then obtain b s where v: "result brun = Fulfilled b" "result srun = Fulfilled s" "v = (b, s)"
        by (auto simp: Promise_all2_Fulfilled)
      from ret out Fulfilled v
      have "r = \<lparr>success = success b \<and> success s \<and> baseOutputPath b \<noteq> None,
              error = or_string (error b) (error s),
              serverResult = Some s, browserResult = Some b\<rparr>"
        by (simp split: promise.splits)
      with Some runs v show ?thesis by simp
    next
      case (Rejected t e)
      with ret out have "\<not> success r"
        by (auto split: promise.splits exn.splits)
      moreover have "\<not> (\<exists>b s. result brun = Fulfilled b \<and> result srun = Fulfilled s)"
        using Rejected by (auto simp: Promise_all2_def)
      ultimately show ?thesis using Some runs by auto
    next
      case Pending
      with ret out show ?thesis by simp
    qed
  qed
next
  fix brun srun b s
  assume a: "scheduled_runs ext options ctx = Some (brun, srun)
         \<and> result brun = Fulfilled b \<and> result srun = Fulfilled s
         \<and> stop brun = Fulfilled () \<and> stop srun = Fulfilled ()"
  then have "scheduled_runs ext options ctx = Some (brun, srun)" by simp
  from scheduleBuilds_outcome[OF this] a
  show "fst (scheduleBuilds ext options ctx) = Returns
             \<lparr>success = success b \<and> success s \<and> baseOutputPath b \<noteq> None,
              error = or_string (error b) (error s),
              serverResult = Some s, browserResult = Some b\<rparr>"
    by (simp add: Promise_all2_def)
qed

theorem scheduleBuilds_success_iff_witness:
  "fst (scheduleBuilds example_ext example_options
          (example_context (example_run example_browser_output)
             (example_run example_server_output)))
     = Returns \<lparr>success = True, error = None,
                serverResult = Some example_server_output,
                browserResult = Some example_browser_output\<rparr>
   \<and> fst (scheduleBuilds example_ext example_options
          (example_context (example_run (example_browser_output\<lparr>baseOutputPath := None\<rparr>))
             (example_run example_server_output)))
     = Returns \<lparr>success = False, error = None,
                serverResult = Some example_server_output,
                browserResult = Some (example_browser_output\<lparr>baseOutputPath := None\<rparr>)\<rparr>"
proof -
  have runs: "scheduled_runs example_ext example_options
      (example_context (example_run b) (example_run s))
    = Some (\<lparr>result = Fulfilled b, stop = Fulfilled ()\<rparr>,
            \<lparr>result = Fulfilled s, stop = Fulfilled ()\<rparr>)" for b s
    by (simp add: scheduled_runs_def example_ext_def example_options_def example_context_def
          example_run_def)
  have facts: "success example_browser_output" "success example_server_output"
    "baseOutputPath example_browser_output = Some ''/dist/browser''"
    "error example_browser_output = None" "error example_server_output = None"
    by (simp_all add: example_browser_output_def example_server_output_def)
  from scheduleBuilds_success_iff [of example_ext example_options
      "example_context (example_run example_browser_output) (example_run example_server_output)"]
    scheduleBuilds_success_iff [of example_ext example_options
      "example_context (example_run (example_browser_output\<lparr>baseOutputPath := None\<rparr>))
         (example_run example_server_output)"]
    runs facts
  show ?thesis by (simp add: or_string_def)
qed


text \<open>
  C3. An exception raised while scheduling is not turned into a failure result: the
  scheduling calls stand before the \<^verbatim>\<open>try\<close> block, and when the promise of
  \<^verbatim>\<open>scheduleTarget\<close> for the browser target is rejected, \<^verbatim>\<open>_scheduleBuilds\<close>
  throws the error of the rejection.
\<close>

theorem scheduleBuilds_propagates_scheduling_error:
  "fst (scheduleBuilds example_ext example_options
          (example_context (Rejected 0 (Error ''Project target does not exist.''))
             (example_run example_server_output)))
     = Throws (Error ''Project target does not exist.'')"
  by (simp add: scheduleBuilds_def run_defs example_ext_def example_options_def
        example_context_def)

text \<open>
  C3, amended. When both targets have been scheduled, awaiting the two results throws a
  value \<open>e\<close> that is neither \<^verbatim>\<open>undefined\<close> nor \<^verbatim>\<open>null\<close>, and both \<^verbatim>\<open>stop()\<close>
  calls complete, \<^verbatim>\<open>_scheduleBuilds\<close> does not propagate \<open>e\<close>: it returns the failure
  result whose error is \<^verbatim>\<open>e.message\<close>, that is the message of an \<^verbatim>\<open>Error\<close> and
  \<^verbatim>\<open>undefined\<close> for a value without that property.
\<close>

theorem scheduleBuilds_catches_await_error:
  assumes "scheduled_runs ext options ctx = Some (brun, srun)"
    and "Promise_all2 (result brun) (result srun) = Rejected t e"
    and "stop brun = Fulfilled ()" and "stop srun = Fulfilled ()"
    and "e \<noteq> Thrown_undefined" and "e \<noteq> Thrown_null"
  shows "\<exists>msg. fst (read_message e) = Returns msg
           \<and> fst (scheduleBuilds ext options ctx) = Returns
                \<lparr>success = False, error = msg, serverResult = None, browserResult = None\<rparr>
           \<and> (\<forall>text. e = Error text \<longrightarrow> msg = Some text)
           \<and> (\<forall>v. e = Thrown_value v \<longrightarrow> msg = None)"
  using scheduleBuilds_outcome [OF assms(1)] assms(2-6)
  by (cases e) (simp_all add: Promise_all2_def read_message_def return_run_def)

theorem scheduleBuilds_catches_await_error_witness:
  "fst (scheduleBuilds example_ext example_options
          (example_context (example_run example_browser_output)
             (Fulfilled \<lparr>result = Rejected 3 (Error ''Module not found''),
                         stop = Fulfilled ()\<rparr>)))
     = Returns \<lparr>success = False, error = Some ''Module not found'',
                serverResult = None, browserResult = None\<rparr>
   \<and> fst (scheduleBuilds example_ext example_options
          (example_context
             (Fulfilled \<lparr>result = Rejected 2 (Thrown_value ''aborted''), stop = Fulfilled ()\<rparr>)
             (example_run example_server_output)))
     = Returns \<lparr>success = False, error = None,
                serverResult = None, browserResult = None\<rparr>"
proof -
  have runs: "scheduled_runs example_ext example_options
      (example_context (Fulfilled brun) (Fulfilled srun)) = Some (brun, srun)" for brun srun
    by (simp add: scheduled_runs_def example_ext_def example_options_def example_context_def)
  have rej1: "Promise_all2
       (result \<lparr>result = Fulfilled example_browser_output, stop = Fulfilled ()\<rparr>)
       (result \<lparr>result = Rejected 3 (Error ''Module not found''), stop = Fulfilled ()\<rparr>)
     = Rejected 3 (Error ''Module not found'')"
    by (simp add: Promise_all2_def)
  have rej2: "Promise_all2
       (result \<lparr>result = Rejected 2 (Thrown_value ''aborted''), stop = Fulfilled ()\<rparr>)
       (result \<lparr>result = Fulfilled example_server_output, stop = Fulfilled ()\<rparr>)
     = Rejected 2 (Thrown_value ''aborted'')"
    by (simp add: Promise_all2_def)
  from scheduleBuilds_catches_await_error [OF runs rej1]
    scheduleBuilds_catches_await_error [OF runs rej2]
  show ?thesis by (auto simp add: example_run_def)
qed

text \<open>
  The \<^verbatim>\<open>catch\<close> clause reads \<^verbatim>\<open>e.message\<close>: when a result promise is rejected with
  \<^verbatim>\<open>undefined\<close>, the clause itself throws a type error, which leaves the function
  after both runs have been stopped.
\<close>

lemma scheduleBuilds_undefined_rejection:
  "scheduleBuilds example_ext example_options
     (example_context (example_run example_browser_output)
        (Fulfilled \<lparr>result = Rejected 3 Thrown_undefined, stop = Fulfilled ()\<rparr>))
   = (Throws (cannot_read_message ''undefined''),
      [Scheduled \<lparr>project = ''app'', target = ''build'', configuration = None\<rparr>
         [(''watch'', False), (''serviceWorker'', False)],
       Scheduled \<lparr>project = ''app'', target = ''server'', configuration = None\<rparr>
         [(''watch'', False)],
       Stopped Browser, Stopped Server])"
  by (simp add: scheduleBuilds_def run_defs read_message_def example_ext_def
        example_options_def example_context_def example_run_def Promise_all2_def)

text \<open>
  C4. When the server target cannot be scheduled after the browser target has been,
  \<^verbatim>\<open>_scheduleBuilds\<close> throws without having called \<^verbatim>\<open>stop()\<close> on the browser run.
\<close>

theorem scheduleBuilds_unstopped_browser_run:
  "fst (scheduleBuilds example_ext example_options
          (example_context (example_run example_browser_output)
             (Rejected 0 (Error ''Project target does not exist.''))))
     = Throws (Error ''Project target does not exist.'')
   \<and> count_list (snd (scheduleBuilds example_ext example_options
          (example_context (example_run example_browser_output)
             (Rejected 0 (Error ''Project target does not exist.''))))) (Stopped Browser) = 0"
  by (simp add: scheduleBuilds_def run_defs example_ext_def example_options_def
        example_context_def example_run_def)

text \<open>
  C4, amended. On every path on which both targets have been scheduled and the awaiting of
  the two results settles (both resolve, or one is rejected), \<^verbatim>\<open>stop()\<close> is called
  exactly once on the browser run and exactly once on the server run; this is so in
  particular whenever \<^verbatim>\<open>_scheduleBuilds\<close> returns.
\<close>

theorem scheduleBuilds_stops_each_run_once:
  "(scheduled_runs ext options ctx = Some (brun, srun)
      \<and> Promise_all2 (result brun) (result srun) \<noteq> Pending
    \<longrightarrow> count_list (snd (scheduleBuilds ext options ctx)) (Stopped Browser) = 1
      \<and> count_list (snd (scheduleBuilds ext options ctx)) (Stopped Server) = 1)
   \<and> (fst (scheduleBuilds ext options ctx) = Returns r
    \<longrightarrow> count_list (snd (scheduleBuilds ext options ctx)) (Stopped Browser) = 1
      \<and> count_list (snd (scheduleBuilds ext options ctx)) (Stopped Server) = 1)"
proof -
  have settled: "count_list (snd (scheduleBuilds ext options ctx)) (Stopped Browser) = 1
      \<and> count_list (snd (scheduleBuilds ext options ctx)) (Stopped Server) = 1"
    if runs: "scheduled_runs ext options ctx = Some (b, s)"
      and np: "Promise_all2 (result b) (result s) \<noteq> Pending" for b s
  proof -
    from scheduleBuilds_trace [OF runs] np obtain bt st where
      "snd (scheduleBuilds ext options ctx) =
         [Scheduled bt [(''watch'', False), (''serviceWorker'', False)],
          Scheduled st [(''watch'', False)], Stopped Browser, Stopped Server]"
      by auto
    then show ?thesis by simp
  qed
  have returned: "count_list (snd (scheduleBuilds ext options ctx)) (Stopped Browser) = 1
      \<and> count_list (snd (scheduleBuilds ext options ctx)) (Stopped Server) = 1"
    if ret: "fst (scheduleBuilds ext options ctx) = Returns r"
  proof (cases "scheduled_runs ext options ctx")
    case None
    from scheduleBuilds_unscheduled(1) [OF None, of r] ret show ?thesis by simp
  next
    case (Some runs)
    obtain b s where runs: "runs = (b, s)" by (cases runs)
    have "Promise_all2 (result b) (result s) \<noteq> Pending"
      using scheduleBuilds_outcome [OF Some [unfolded runs]] ret by auto
    with Some runs show ?thesis using settled by simp
  qed
  from settled returned show ?thesis by blast
qed

theorem scheduleBuilds_stops_each_run_once_witness:
  "fst (scheduleBuilds example_ext example_options
          (example_context (example_run example_browser_output)
             (Fulfilled \<lparr>result = Rejected 3 (Error ''Module not found''),
                         stop = Fulfilled ()\<rparr>)))
     = Returns \<lparr>success = False, error = Some ''Module not found'',
                serverResult = None, browserResult = None\<rparr>
   \<and> count_list (snd (scheduleBuilds example_ext example_options
          (example_context (example_run example_browser_output)
             (Fulfilled \<lparr>result = Rejected 3 (Error ''Module not found''),
                         stop = Fulfilled ()\<rparr>)))) (Stopped Browser) = 1
   \<and> count_list (snd (scheduleBuilds example_ext example_options
          (example_context (example_run example_browser_output)
             (Fulfilled \<lparr>result = Rejected 3 (Error ''Module not found''),
                         stop = Fulfilled ()\<rparr>)))) (Stopped Server) = 1"
proof -
  have ret: "fst (scheduleBuilds example_ext example_options
          (example_context (example_run example_browser_output)
             (Fulfilled \<lparr>result = Rejected 3 (Error ''Module not found''),
                         stop = Fulfilled ()\<rparr>)))
     = Returns \<lparr>success = False, error = Some ''Module not found'',
                serverResult = None, browserResult = None\<rparr>"
    by (simp add: scheduleBuilds_def run_defs read_message_def example_ext_def
          example_options_def example_context_def example_run_def Promise_all2_def)
  from scheduleBuilds_stops_each_run_once [THEN conjunct2, rule_format, OF ret] ret
  show ?thesis by simp
qed


lemma scheduleBuilds_events:
  "ev \<in> set (snd (scheduleBuilds ext options ctx)) \<Longrightarrow> \<not> is_fork ev"
  by (auto simp add: scheduleBuilds_def run_defs read_message_def
        split: sum.splits promise.splits prod.splits exn.splits)

subsection \<open>Top-level orchestration: worker count and empty route list\<close>

text \<open>
  C5. The worker count has no lower bound: with a single processing unit and no configured
  count, \<^verbatim>\<open>os.cpus().length - 1\<close> is 0 and so is the worker count, for three routes.
\<close>

theorem execute_numProcesses_single_cpu:
  "execute_numProcesses (example_ext\<lparr>cpus := 1\<rparr>) example_options [''/'', ''/about'', ''/contact'']
     = 0"
  by (simp add: execute_numProcesses_def or_number_def example_ext_def example_options_def)

text \<open>
  C5, amended. For every non-empty route list, the worker count that \<^verbatim>\<open>execute\<close> hands
  to the dispatcher is the configured count when one is given and is not zero, and otherwise
  the number of processing units minus one, in both cases capped at the number of routes.
  It is at least 1 exactly when that uncapped count is: in particular when a count of at
  least 1 is configured, and when none is configured and there are at least two processing
  units.
\<close>

theorem execute_numProcesses_value:
  assumes "rs \<noteq> []"
  shows "execute_numProcesses ext options rs =
           min (case numProcesses options of
                  Some n \<Rightarrow> if n \<noteq> 0 then n else int (cpus ext) - 1
                | None \<Rightarrow> int (cpus ext) - 1)
               (int (length rs))
       \<and> (1 \<le> execute_numProcesses ext options rs \<longleftrightarrow>
            1 \<le> (case numProcesses options of
                    Some n \<Rightarrow> if n \<noteq> 0 then n else int (cpus ext) - 1
                  | None \<Rightarrow> int (cpus ext) - 1))
       \<and> (\<forall>n. numProcesses options = Some n \<and> 1 \<le> n \<longrightarrow>
            execute_numProcesses ext options rs = min n (int (length rs))
            \<and> 1 \<le> execute_numProcesses ext options rs)
       \<and> (numProcesses options = None \<and> 2 \<le> cpus ext \<longrightarrow>
            execute_numProcesses ext options rs = min (int (cpus ext) - 1) (int (length rs))
            \<and> 1 \<le> execute_numProcesses ext options rs)"
proof -
  have len: "1 \<le> int (length rs)" using assms by (cases rs) simp_all
  show ?thesis
    using len by (auto simp add: execute_numProcesses_def or_number_def split: option.splits)
qed

theorem execute_numProcesses_value_witness:
  "[''/'', ''/about'', ''/contact''] \<noteq> []
   \<and> execute_numProcesses example_ext example_options [''/'', ''/about'', ''/contact''] = 3
   \<and> execute_numProcesses example_ext (example_options\<lparr>numProcesses := Some 2\<rparr>)
        [''/'', ''/about'', ''/contact''] = 2"
proof -
  have ne: "[''/'', ''/about'', ''/contact''] \<noteq> []" by simp
  from execute_numProcesses_value [OF ne, of example_ext example_options]
    execute_numProcesses_value [OF ne, of example_ext "example_options\<lparr>numProcesses := Some 2\<rparr>"]
  show ?thesis by (simp add: example_ext_def example_options_def)
qed

text \<open>
  C6. When the route source yields no route, \<^verbatim>\<open>execute\<close> throws
  \<^verbatim>\<open>No routes found.\<close> and performs no effect at all: no build target is scheduled.
\<close>

theorem execute_no_routes:
  assumes "getRoutes ext (workspaceRoot ctx) (routesFile options) (routes options) = Inr []"
  shows "execute ext options ctx = (Throws (Error ''No routes found.''), [])"
  using assms by (simp add: execute_def run_defs)

theorem execute_no_routes_witness:
  "getRoutes example_ext
     (workspaceRoot (example_context (example_run example_browser_output)
        (example_run example_server_output)))
     (routesFile (example_options\<lparr>routes := None\<rparr>))
     (routes (example_options\<lparr>routes := None\<rparr>)) = Inr []
   \<and> execute example_ext (example_options\<lparr>routes := None\<rparr>)
       (example_context (example_run example_browser_output) (example_run example_server_output))
     = (Throws (Error ''No routes found.''), [])"
proof -
  have h: "getRoutes example_ext
     (workspaceRoot (example_context (example_run example_browser_output)
        (example_run example_server_output)))
     (routesFile (example_options\<lparr>routes := None\<rparr>))
     (routes (example_options\<lparr>routes := None\<rparr>)) = Inr []"
    by (simp add: example_ext_def example_options_def)
  from execute_no_routes [OF h] h show ?thesis by simp
qed

subsection \<open>The render dispatcher\<close>

lemma fst_bind_run_Returns:
  "fst (bind_run m f) = Returns y \<longleftrightarrow> (\<exists>x. fst m = Returns x \<and> fst (f x) = Returns y)"
  by (cases m; cases "fst m") (auto simp: bind_run_def split: prod.splits)

lemma bind_run_Returns:
  "fst m = Returns x \<Longrightarrow> bind_run m f = (fst (f x), snd m @ snd (f x))"
  by (cases m) (auto simp: bind_run_def split: prod.splits)

lemma bind_run_Throws:
  "fst m = Throws e \<Longrightarrow> bind_run m f = (Throws e, snd m)"
  by (cases m) (auto simp: bind_run_def)

lemma earliest_rejection_None:
  "earliest_rejection ps = None \<longleftrightarrow> (\<forall>t e. Rejected t e \<notin> set ps)"
proof (induction ps)
  case Nil
  show ?case by simp
next
  case (Cons p ps)
  then show ?case by (cases p) (auto split: option.splits)
qed

lemma earliest_rejection_Some:
  "earliest_rejection ps = Some (t, e) \<Longrightarrow> Rejected t e \<in> set ps"
proof (induction ps arbitrary: t e)
  case Nil
  then show ?case by simp
next
  case (Cons p ps)
  then show ?case by (cases p) (auto split: option.splits if_splits)
qed

lemma Promise_all_Rejected:
  "(\<exists>t e. Promise_all ps = Rejected t e) \<longleftrightarrow> (\<exists>t e. Rejected t e \<in> set ps)"
proof (cases "earliest_rejection ps")
  case None
  then show ?thesis
    using earliest_rejection_None [of ps] by (auto simp: Promise_all_def split: option.splits)
next
  case (Some te)
  then show ?thesis
    using earliest_rejection_Some [of ps "fst te" "snd te"]
    by (cases te) (auto simp: Promise_all_def)
qed

lemma Promise_all_Rejected_mem:
  "Promise_all ps = Rejected t e \<Longrightarrow> Rejected t e \<in> set ps"
  using earliest_rejection_Some [of ps t e]
  by (auto simp: Promise_all_def split: option.splits prod.splits)

lemma renderOutputPath_unreadable:
  assumes "readFileSync ext (path_join ext [p, ''index.html'']) = Inl e"
  shows "renderOutputPath ext rs n ctx bres sres p
           = (Throws e, [FileRead (path_join ext [p, ''index.html''])])"
  using assms by (simp add: renderOutputPath_def run_defs)

lemma renderOutputPath_missing:
  assumes "readFileSync ext (path_join ext [p, ''index.html'']) = Inr html"
    and "baseOutputPath bres = Some bb"
    and "\<not> existsSync ext (path_join ext
           [case baseOutputPath sres of None \<Rightarrow> [] | Some b \<Rightarrow> b,
            path_relative ext bb p, ''main.js''])"
  shows "renderOutputPath ext rs n ctx bres sres p
           = (Throws (Error (''Could not find the main bundle: '' @ path_join ext
                [case baseOutputPath sres of None \<Rightarrow> [] | Some b \<Rightarrow> b,
                 path_relative ext bb p, ''main.js''])),
              [FileRead (path_join ext [p, ''index.html'']),
               ExistsChecked (path_join ext
                [case baseOutputPath sres of None \<Rightarrow> [] | Some b \<Rightarrow> b,
                 path_relative ext bb p, ''main.js''])])"
  using assms by (simp add: renderOutputPath_def run_defs Let_def)

lemma renderOutputPath_present:
  assumes "readFileSync ext (path_join ext [p, ''index.html'']) = Inr html"
    and "baseOutputPath bres = Some bb"
    and "bundle = path_join ext
           [case baseOutputPath sres of None \<Rightarrow> [] | Some b \<Rightarrow> b,
            path_relative ext bb p, ''main.js'']"
    and "existsSync ext bundle"
    and "workerFile = path_join ext [dirname ext, ''render.js'']"
  shows "fst (renderOutputPath ext rs n ctx bres sres p)
           = (case Promise_all (map (\<lambda>g. ending (fork ext workerFile (html # bundle # p # g)))
                                  (groupArray rs n)) of
                Fulfilled vs \<Rightarrow> Returns ()
              | Rejected t e \<Rightarrow> Throws e
              | Pending \<Rightarrow> Blocks)"
    and "snd (renderOutputPath ext rs n ctx bres sres p)
           = [FileRead (path_join ext [p, ''index.html'']), ExistsChecked bundle,
              LoggedInfo (CHR 0x0A # ''Prerendering '' @ string_of_nat (length rs)
                            @ '' route(s) to '' @ p)]
             @ map (\<lambda>g. Forked workerFile (html # bundle # p # g)) (groupArray rs n)
             @ concat (map (\<lambda>g. concat (map log_report
                          (reports (fork ext workerFile (html # bundle # p # g)))))
                        (groupArray rs n))"
  using assms
  by (simp_all add: renderOutputPath_def parallelRenderRoutes_def run_defs Let_def
        split: promise.splits)

lemma renderOutputPath_missing_no_return:
  assumes "baseOutputPath bres = Some bb"
    and "\<not> existsSync ext (path_join ext
           [case baseOutputPath sres of None \<Rightarrow> [] | Some b \<Rightarrow> b,
            path_relative ext bb p, ''main.js''])"
  shows "\<exists>e. fst (renderOutputPath ext rs n ctx bres sres p) = Throws e"
proof (cases "readFileSync ext (path_join ext [p, ''index.html''])")
  case (Inl e)
  from renderOutputPath_unreadable [OF Inl] show ?thesis by simp
next
  case (Inr html)
  from renderOutputPath_missing [OF Inr assms] show ?thesis by simp
qed

lemma renderOutputPaths_append:
  "renderOutputPaths ext rs n ctx bres sres (pre @ rest)
     = bind_run (renderOutputPaths ext rs n ctx bres sres pre)
         (\<lambda>_. renderOutputPaths ext rs n ctx bres sres rest)"
proof (induction pre)
  case Nil
  show ?case by (cases "renderOutputPaths ext rs n ctx bres sres rest")
      (simp add: bind_run_def return_run_def)
next
  case (Cons p pre)
  show ?case
    apply (simp add: Cons.IH)
    apply (cases "renderOutputPath ext rs n ctx bres sres p")
    apply (cases "renderOutputPaths ext rs n ctx bres sres pre")
    apply (cases "renderOutputPaths ext rs n ctx bres sres rest")
    apply (auto simp: bind_run_def split: outcome.splits prod.splits)
    done
qed

lemma renderOutputPaths_missing_no_return:
  assumes "baseOutputPath bres = Some bb"
    and "p \<in> set ps"
    and "\<not> existsSync ext (path_join ext
           [case baseOutputPath sres of None \<Rightarrow> [] | Some b \<Rightarrow> b,
            path_relative ext bb p, ''main.js''])"
  shows "fst (renderOutputPaths ext rs n ctx bres sres ps) \<noteq> Returns u"
  using assms(2)
proof (induction ps)
  case Nil
  then show ?case by simp
next
  case (Cons q qs)
  show ?case
  proof (cases "p = q")
    case True
    from renderOutputPath_missing_no_return [OF assms(1,3), of rs n ctx]
    obtain e where "fst (renderOutputPath ext rs n ctx bres sres q) = Throws e"
      unfolding True by blast
    then show ?thesis by (simp add: fst_bind_run_Returns)
  next
    case False
    with Cons show ?thesis by (simp add: fst_bind_run_Returns)
  qed
qed

lemma filter_is_fork_logs:
  "filter is_fork (concat (map (\<lambda>g. concat (map log_report (reports (child g)))) gs)) = []"
proof -
  have one: "filter is_fork (log_report w) = []" for w by (cases w) simp_all
  have "filter is_fork (concat (map log_report ws)) = []" for ws
    by (induction ws) (simp_all add: one)
  then show ?thesis by (induction gs) simp_all
qed

lemma filter_is_fork_forks:
  "filter is_fork (map (\<lambda>g. Forked file (argv g)) gs) = map (\<lambda>g. Forked file (argv g)) gs"
  by (induction gs) simp_all

lemma renderUniversal_outcome:
  "fst (renderUniversal ext rs n ctx bres sres) =
     (case fst (renderOutputPaths ext rs n ctx bres sres (outputPaths bres)) of
        Returns u \<Rightarrow> Returns bres | Throws e \<Rightarrow> Throws e | Blocks \<Rightarrow> Blocks)"
  by (cases "renderOutputPaths ext rs n ctx bres sres (outputPaths bres)")
    (simp add: renderUniversal_def bind_run_def return_run_def split: outcome.splits)

text \<open>
  C7. For every output path of the browser build, the dispatcher looks for the server
  bundle at the server build's base output path joined with the location of the output
  path relative to the browser build's base output path and with \<^verbatim>\<open>main.js\<close>, and
  passes that path to every worker it forks for the output path. When the file does not
  exist, the iteration throws the missing-bundle error without forking a worker, and
  \<^verbatim>\<open>_renderUniversal\<close> as a whole does not return: it throws that error as soon as
  the iterations before it have completed and the index document has been read.
\<close>

theorem renderUniversal_server_bundle:
  fixes ext :: externals and bb sb :: string and bundlePath :: "string \<Rightarrow> string"
  assumes "baseOutputPath bres = Some bb" and "baseOutputPath sres = Some sb"
  defines "bundlePath \<equiv> \<lambda>p. path_join ext [sb, path_relative ext bb p, ''main.js'']"
  shows "(\<forall>p html. readFileSync ext (path_join ext [p, ''index.html'']) = Inr html \<longrightarrow>
            (if existsSync ext (bundlePath p)
             then ExistsChecked (bundlePath p) \<in> set (snd (renderOutputPath ext rs n ctx bres sres p))
                \<and> filter is_fork (snd (renderOutputPath ext rs n ctx bres sres p))
                  = map (\<lambda>g. Forked (path_join ext [dirname ext, ''render.js''])
                                (html # bundlePath p # p # g)) (groupArray rs n)
             else renderOutputPath ext rs n ctx bres sres p
                  = (Throws (Error (''Could not find the main bundle: '' @ bundlePath p)),
                     [FileRead (path_join ext [p, ''index.html'']), ExistsChecked (bundlePath p)])))
       \<and> (\<forall>p \<in> set (outputPaths bres). \<not> existsSync ext (bundlePath p) \<longrightarrow>
            (\<forall>out. fst (renderUniversal ext rs n ctx bres sres) \<noteq> Returns out))
       \<and> (\<forall>pre p post html.
            outputPaths bres = pre @ p # post
            \<and> fst (renderOutputPaths ext rs n ctx bres sres pre) = Returns ()
            \<and> readFileSync ext (path_join ext [p, ''index.html'']) = Inr html
            \<and> \<not> existsSync ext (bundlePath p) \<longrightarrow>
            fst (renderUniversal ext rs n ctx bres sres)
              = Throws (Error (''Could not find the main bundle: '' @ bundlePath p)))"
proof (intro conjI allI ballI impI)
  fix p html
  assume html: "readFileSync ext (path_join ext [p, ''index.html'']) = Inr html"
  have b: "bundlePath p = path_join ext
      [case baseOutputPath sres of None \<Rightarrow> [] | Some b \<Rightarrow> b, path_relative ext bb p, ''main.js'']"
    by (simp add: bundlePath_def assms(2))
  show "if existsSync ext (bundlePath p)
        then ExistsChecked (bundlePath p) \<in> set (snd (renderOutputPath ext rs n ctx bres sres p))
           \<and> filter is_fork (snd (renderOutputPath ext rs n ctx bres sres p))
             = map (\<lambda>g. Forked (path_join ext [dirname ext, ''render.js''])
                           (html # bundlePath p # p # g)) (groupArray rs n)
        else renderOutputPath ext rs n ctx bres sres p
             = (Throws (Error (''Could not find the main bundle: '' @ bundlePath p)),
                [FileRead (path_join ext [p, ''index.html'']), ExistsChecked (bundlePath p)])"
  proof (cases "existsSync ext (bundlePath p)")
    case True
    from renderOutputPath_present(2) [OF html assms(1) b True refl, of rs n ctx] True
    show ?thesis by (simp add: filter_is_fork_logs filter_is_fork_forks)
  next
    case False
    from renderOutputPath_missing [OF html assms(1), of sres rs n ctx] False b
    show ?thesis by simp
  qed
next
  fix p out
  assume "p \<in> set (outputPaths bres)" and "\<not> existsSync ext (bundlePath p)"
  then have "fst (renderOutputPaths ext rs n ctx bres sres (outputPaths bres)) \<noteq> Returns ()"
    by (intro renderOutputPaths_missing_no_return [OF assms(1)])
      (simp_all add: bundlePath_def assms(2))
  then show "fst (renderUniversal ext rs n ctx bres sres) \<noteq> Returns out"
    by (simp add: renderUniversal_outcome split: outcome.splits)
next
  fix pre p post html
  assume a: "outputPaths bres = pre @ p # post
            \<and> fst (renderOutputPaths ext rs n ctx bres sres pre) = Returns ()
            \<and> readFileSync ext (path_join ext [p, ''index.html'']) = Inr html
            \<and> \<not> existsSync ext (bundlePath p)"
  then have miss: "\<not> existsSync ext (path_join ext
      [case baseOutputPath sres of None \<Rightarrow> [] | Some b \<Rightarrow> b, path_relative ext bb p, ''main.js''])"
    by (simp add: bundlePath_def assms(2))
  from a have html: "readFileSync ext (path_join ext [p, ''index.html'']) = Inr html" by simp
  have body: "fst (renderOutputPath ext rs n ctx bres sres p)
      = Throws (Error (''Could not find the main bundle: '' @ bundlePath p))"
    using renderOutputPath_missing [OF html assms(1) miss, of rs n ctx]
    by (simp add: bundlePath_def assms(2))
  have "fst (renderOutputPaths ext rs n ctx bres sres (p # post))
      = Throws (Error (''Could not find the main bundle: '' @ bundlePath p))"
    using body by (simp add: bind_run_Throws)
  then have "fst (renderOutputPaths ext rs n ctx bres sres (outputPaths bres))
      = Throws (Error (''Could not find the main bundle: '' @ bundlePath p))"
    using a by (simp add: renderOutputPaths_append bind_run_Returns del: renderOutputPaths.simps)
  then show "fst (renderUniversal ext rs n ctx bres sres)
      = Throws (Error (''Could not find the main bundle: '' @ bundlePath p))"
    by (simp add: renderUniversal_outcome)
qed


theorem renderUniversal_server_bundle_witness:
  "fst (renderUniversal (example_ext\<lparr>existsSync := (\<lambda>p. p = ''/dist/server/en/main.js'')\<rparr>)
          [''/'', ''/about'', ''/contact''] 3
          (example_context (example_run example_browser_output)
             (example_run example_server_output))
          example_browser_output example_server_output)
     = Throws (Error ''Could not find the main bundle: /dist/server/fr/main.js'')"
proof -
  let ?ext = "example_ext\<lparr>existsSync := (\<lambda>p. p = ''/dist/server/en/main.js'')\<rparr>"
  let ?ctx = "example_context (example_run example_browser_output)
                (example_run example_server_output)"
  let ?rs = "[''/'', ''/about'', ''/contact'']"
  have bb: "baseOutputPath example_browser_output = Some ''/dist/browser''"
    by (simp add: example_browser_output_def)
  have sb: "baseOutputPath example_server_output = Some ''/dist/server''"
    by (simp add: example_server_output_def)
  have paths: "outputPaths example_browser_output = [''/dist/browser/en''] @ ''/dist/browser/fr'' # []"
    by (simp add: example_browser_output_def)
  have pre: "fst (renderOutputPaths ?ext ?rs 3 ?ctx example_browser_output example_server_output
                    [''/dist/browser/en'']) = Returns ()"
    by code_simp
  have html: "readFileSync ?ext (path_join ?ext [''/dist/browser/fr'', ''index.html''])
                = Inr ''<app-root></app-root>''"
    by (simp add: example_ext_def)
  have path: "path_join ?ext [''/dist/server'',
                 path_relative ?ext ''/dist/browser'' ''/dist/browser/fr'', ''main.js'']
                = ''/dist/server/fr/main.js''"
    by code_simp
  have missing: "\<not> existsSync ?ext (path_join ?ext [''/dist/server'',
                 path_relative ?ext ''/dist/browser'' ''/dist/browser/fr'', ''main.js''])"
    unfolding path by (simp add: example_ext_def)
  from renderUniversal_server_bundle [OF bb sb, of ?ext ?rs 3 ?ctx,
      THEN conjunct2, THEN conjunct2, rule_format,
      of "[''/dist/browser/en'']" "''/dist/browser/fr''" "[]" "''<app-root></app-root>''"]
    paths pre html missing
  show ?thesis unfolding path by simp
qed

subsection \<open>Top-level orchestration: build failure\<close>

lemma fst_bind_run:
  "fst (bind_run m f) =
     (case fst m of Returns x \<Rightarrow> fst (f x) | Throws e \<Rightarrow> Throws e | Blocks \<Rightarrow> Blocks)"
  by (cases m; cases "fst m") (auto simp: bind_run_def split: prod.splits)

lemma execute_with_routes:
  assumes "getRoutes ext (workspaceRoot ctx) (routesFile options) (routes options) = Inr rs"
    and "rs \<noteq> []"
  shows "execute ext options ctx =
     bind_run (scheduleBuilds ext options ctx) (\<lambda>res.
       if \<not> success res \<or> browserResult res = None \<or> serverResult res = None
       then return_run (BuildStageOutput \<lparr>success = success res, error = error res\<rparr>)
       else bind_run (renderUniversal ext rs (execute_numProcesses ext options rs) ctx
                        (the (browserResult res)) (the (serverResult res)))
              (\<lambda>out. return_run (BrowserOutput out)))"
  using assms
  by (cases "scheduleBuilds ext options ctx")
    (simp add: execute_def lift_def bind_run_def throw_def split: outcome.splits)

lemma execute_failed_build:
  assumes "getRoutes ext (workspaceRoot ctx) (routesFile options) (routes options) = Inr rs"
    and "rs \<noteq> []"
    and "fst (scheduleBuilds ext options ctx) = Returns res"
    and "\<not> success res"
  shows "execute ext options ctx =
           (Returns (BuildStageOutput \<lparr>success = False, error = error res\<rparr>),
            snd (scheduleBuilds ext options ctx))"
  using assms(3,4)
  by (simp add: execute_with_routes [OF assms(1,2)] bind_run_Returns return_run_def)

lemma execute_rendering:
  assumes "getRoutes ext (workspaceRoot ctx) (routesFile options) (routes options) = Inr rs"
    and "rs \<noteq> []"
    and "fst (scheduleBuilds ext options ctx) = Returns res"
    and "success res" and "browserResult res = Some b" and "serverResult res = Some s"
  shows "fst (execute ext options ctx) =
           (case fst (renderUniversal ext rs (execute_numProcesses ext options rs) ctx b s) of
              Returns out \<Rightarrow> Returns (BrowserOutput out)
            | Throws e \<Rightarrow> Throws e
            | Blocks \<Rightarrow> Blocks)"
  using assms(3-6)
  by (simp add: execute_with_routes [OF assms(1,2)] fst_bind_run return_run_def
        split: outcome.splits)

text \<open>
  C8. When the build stage returns a result whose success flag is not set, \<^verbatim>\<open>execute\<close>
  returns that failure (the flag and the error) at once: its effects are those of the
  build stage alone, and none of them is the fork of a worker. This is the case in
  particular when the browser build resolves with \<open>success = false\<close>.
\<close>

theorem execute_build_failure:
  assumes "getRoutes ext (workspaceRoot ctx) (routesFile options) (routes options) = Inr rs"
    and "rs \<noteq> []"
  shows "(\<forall>res. fst (scheduleBuilds ext options ctx) = Returns res \<and> \<not> success res \<longrightarrow>
            execute ext options ctx
              = (Returns (BuildStageOutput \<lparr>success = False, error = error res\<rparr>),
                 snd (scheduleBuilds ext options ctx))
            \<and> filter is_fork (snd (execute ext options ctx)) = [])
       \<and> (\<forall>brun srun b s.
            scheduled_runs ext options ctx = Some (brun, srun)
            \<and> result brun = Fulfilled b \<and> \<not> success b \<and> result srun = Fulfilled s
            \<and> stop brun = Fulfilled () \<and> stop srun = Fulfilled () \<longrightarrow>
            fst (execute ext options ctx)
              = Returns (BuildStageOutput
                  \<lparr>success = False, error = or_string (error b) (error s)\<rparr>)
            \<and> filter is_fork (snd (execute ext options ctx)) = [])"
proof -
  have nofork: "filter is_fork (snd (scheduleBuilds ext options ctx)) = []"
    using scheduleBuilds_events [of _ ext options ctx] by (simp add: filter_empty_conv)
  have first: "execute ext options ctx
              = (Returns (BuildStageOutput \<lparr>success = False, error = error res\<rparr>),
                 snd (scheduleBuilds ext options ctx))
            \<and> filter is_fork (snd (execute ext options ctx)) = []"
    if "fst (scheduleBuilds ext options ctx) = Returns res" and "\<not> success res" for res
    using execute_failed_build [OF assms that] nofork by simp
  have second: "fst (execute ext options ctx)
              = Returns (BuildStageOutput
                  \<lparr>success = False, error = or_string (error b) (error s)\<rparr>)
            \<and> filter is_fork (snd (execute ext options ctx)) = []"
    if runs: "scheduled_runs ext options ctx = Some (brun, srun)"
      and res: "result brun = Fulfilled b" "\<not> success b" "result srun = Fulfilled s"
      and stops: "stop brun = Fulfilled ()" "stop srun = Fulfilled ()" for brun srun b s
  proof -
    have "fst (scheduleBuilds ext options ctx) = Returns
             \<lparr>success = False, error = or_string (error b) (error s),
              serverResult = Some s, browserResult = Some b\<rparr>"
      using scheduleBuilds_outcome [OF runs] res stops by (simp add: Promise_all2_def)
    from execute_failed_build [OF assms this]
    have "execute ext options ctx
            = (Returns (BuildStageOutput
                 \<lparr>success = False, error = or_string (error b) (error s)\<rparr>),
               snd (scheduleBuilds ext options ctx))"
      by simp
    then show ?thesis using nofork by simp
  qed
  from first second show ?thesis by blast
qed

theorem execute_build_failure_witness:
  "execute example_ext example_options
     (example_context (example_run (example_browser_output\<lparr>success := False,
                                       error := Some ''Budget exceeded''\<rparr>))
        (example_run example_server_output))
   = (Returns (BuildStageOutput \<lparr>success = False, error = Some ''Budget exceeded''\<rparr>),
      snd (scheduleBuilds example_ext example_options
        (example_context (example_run (example_browser_output\<lparr>success := False,
                                          error := Some ''Budget exceeded''\<rparr>))
           (example_run example_server_output))))
   \<and> filter is_fork (snd (execute example_ext example_options
        (example_context (example_run (example_browser_output\<lparr>success := False,
                                          error := Some ''Budget exceeded''\<rparr>))
           (example_run example_server_output)))) = []"
proof -
  let ?ctx = "example_context (example_run (example_browser_output\<lparr>success := False,
                                       error := Some ''Budget exceeded''\<rparr>))
        (example_run example_server_output)"
  have rs: "getRoutes example_ext (workspaceRoot ?ctx) (routesFile example_options)
              (routes example_options) = Inr [''/'', ''/about'', ''/contact'']"
    by (simp add: example_ext_def example_options_def)
  have ne: "[''/'', ''/about'', ''/contact''] \<noteq> []" by simp
  have ret: "fst (scheduleBuilds example_ext example_options ?ctx) = Returns
      \<lparr>success = False, error = Some ''Budget exceeded'',
       serverResult = Some example_server_output,
       browserResult = Some (example_browser_output\<lparr>success := False,
                                       error := Some ''Budget exceeded''\<rparr>)\<rparr>"
    by (simp add: scheduleBuilds_def run_defs example_ext_def example_options_def
          example_context_def example_run_def Promise_all2_def or_string_def
          example_browser_output_def)
  have failed: "\<not> success
      \<lparr>success = False, error = Some ''Budget exceeded'',
       serverResult = Some example_server_output,
       browserResult = Some (example_browser_output\<lparr>success := False,
                                       error := Some ''Budget exceeded''\<rparr>)\<rparr>"
    by simp
  note inst = execute_build_failure [OF rs ne, THEN conjunct1, rule_format, OF conjI,
      OF ret failed]
  from inst [THEN conjunct1]
  have a: "execute example_ext example_options ?ctx
     = (Returns (BuildStageOutput \<lparr>success = False, error = Some ''Budget exceeded''\<rparr>),
        snd (scheduleBuilds example_ext example_options ?ctx))"
    by simp
  from inst [THEN conjunct2]
  have b: "filter is_fork (snd (execute example_ext example_options ?ctx)) = []" .
  show ?thesis using a b [unfolded a] by simp
qed

subsection \<open>Worker errors\<close>

text \<open>
  C9. When a worker forked for an output path emits \<^verbatim>\<open>error\<close>, its promise is
  rejected, \<^verbatim>\<open>Promise.all\<close> over the workers of that output path is rejected with
  the error of one of them, and \<^verbatim>\<open>_renderUniversal\<close> and \<^verbatim>\<open>execute\<close> throw that
  error: the whole operation is aborted.
\<close>

theorem worker_error_rejects_execute:
  assumes "getRoutes ext (workspaceRoot ctx) (routesFile options) (routes options) = Inr rs"
    and "rs \<noteq> []"
    and "fst (scheduleBuilds ext options ctx) = Returns res"
    and "success res" and "browserResult res = Some b" and "serverResult res = Some s"
    and "n = execute_numProcesses ext options rs"
    and "baseOutputPath b = Some bb"
    and "outputPaths b = pre @ p # post"
    and "fst (renderOutputPaths ext rs n ctx b s pre) = Returns ()"
    and "readFileSync ext (path_join ext [p, ''index.html'']) = Inr html"
    and "bundlePath = path_join ext
           [case baseOutputPath s of None \<Rightarrow> [] | Some x \<Rightarrow> x,
            path_relative ext bb p, ''main.js'']"
    and "existsSync ext bundlePath"
    and "workerFile = path_join ext [dirname ext, ''render.js'']"
    and "g \<in> set (groupArray rs n)"
    and "ending (fork ext workerFile (html # bundlePath # p # g)) = Rejected t e"
  shows "\<exists>t' e'.
           Promise_all (map (\<lambda>g. ending (fork ext workerFile (html # bundlePath # p # g)))
                          (groupArray rs n)) = Rejected t' e'
         \<and> (\<exists>g' \<in> set (groupArray rs n).
                ending (fork ext workerFile (html # bundlePath # p # g')) = Rejected t' e')
         \<and> fst (renderUniversal ext rs n ctx b s) = Throws e'
         \<and> fst (execute ext options ctx) = Throws e'"
proof -
  let ?ps = "map (\<lambda>g. ending (fork ext workerFile (html # bundlePath # p # g))) (groupArray rs n)"
  have "Rejected t e \<in> set ?ps" using assms(15,16) by force
  then obtain t' e' where rej: "Promise_all ?ps = Rejected t' e'"
    using Promise_all_Rejected [of ?ps] by blast
  have body: "fst (renderOutputPath ext rs n ctx b s p) = Throws e'"
    using renderOutputPath_present(1) [OF assms(11) assms(8) assms(12) assms(13) assms(14),
        of rs n ctx] rej
    by simp
  have "fst (renderOutputPaths ext rs n ctx b s (p # post)) = Throws e'"
    using body by (simp add: bind_run_Throws)
  then have "fst (renderOutputPaths ext rs n ctx b s (outputPaths b)) = Throws e'"
    using assms(9,10)
    by (simp add: renderOutputPaths_append bind_run_Returns del: renderOutputPaths.simps)
  then have ru: "fst (renderUniversal ext rs n ctx b s) = Throws e'"
    by (simp add: renderUniversal_outcome)
  have ex: "fst (execute ext options ctx) = Throws e'"
    using execute_rendering [OF assms(1-6)] ru assms(7) by simp
  have "\<exists>g' \<in> set (groupArray rs n).
          ending (fork ext workerFile (html # bundlePath # p # g')) = Rejected t' e'"
    using Promise_all_Rejected_mem [OF rej] by auto
  with rej ru ex show ?thesis by blast
qed

theorem worker_error_rejects_execute_witness:
  "fst (execute
     (example_ext\<lparr>fork := (\<lambda>file argv.
         \<lparr>reports = [],
          ending = (if argv ! 3 = ''/about'' then Rejected 1 (Error ''spawn ENOMEM'')
                    else Fulfilled ())\<rparr>)\<rparr>)
     example_options
     (example_context (example_run example_browser_output) (example_run example_server_output)))
   = Throws (Error ''spawn ENOMEM'')"
proof -
  let ?ext = "example_ext\<lparr>fork := (\<lambda>file argv.
         \<lparr>reports = [],
          ending = (if argv ! 3 = ''/about'' then Rejected 1 (Error ''spawn ENOMEM'')
                    else Fulfilled ())\<rparr>)\<rparr>"
  let ?ctx = "example_context (example_run example_browser_output)
                (example_run example_server_output)"
  let ?rs = "[''/'', ''/about'', ''/contact'']"
  let ?ps = "map (\<lambda>g. ending (fork ?ext ''/builders/prerender/render.js''
                (''<app-root></app-root>'' # ''/dist/server/en/main.js'' # ''/dist/browser/en'' # g)))
              (groupArray ?rs 3)"
  have rs: "getRoutes ?ext (workspaceRoot ?ctx) (routesFile example_options)
              (routes example_options) = Inr ?rs"
    by (simp add: example_ext_def example_options_def)
  have ne: "?rs \<noteq> []" by simp
  have ret: "fst (scheduleBuilds ?ext example_options ?ctx) = Returns
      \<lparr>success = True, error = None,
       serverResult = Some example_server_output,
       browserResult = Some example_browser_output\<rparr>"
    by (simp add: scheduleBuilds_def run_defs example_ext_def example_options_def
          example_context_def example_run_def Promise_all2_def or_string_def
          example_browser_output_def example_server_output_def)
  have n: "(3::int) = execute_numProcesses ?ext example_options ?rs"
    by (simp add: execute_numProcesses_def or_number_def example_ext_def example_options_def)
  have bb: "baseOutputPath example_browser_output = Some ''/dist/browser''"
    by (simp add: example_browser_output_def)
  have paths: "outputPaths example_browser_output = [] @ ''/dist/browser/en'' # [''/dist/browser/fr'']"
    by (simp add: example_browser_output_def)
  have pre: "fst (renderOutputPaths ?ext ?rs 3 ?ctx example_browser_output example_server_output [])
               = Returns ()"
    by (simp add: return_run_def)
  have html: "readFileSync ?ext (path_join ?ext [''/dist/browser/en'', ''index.html''])
                = Inr ''<app-root></app-root>''"
    by (simp add: example_ext_def)
  have path: "''/dist/server/en/main.js'' = path_join ?ext
           [case baseOutputPath example_server_output of None \<Rightarrow> [] | Some x \<Rightarrow> x,
            path_relative ?ext ''/dist/browser'' ''/dist/browser/en'', ''main.js'']"
    by code_simp
  have ex: "existsSync ?ext ''/dist/server/en/main.js''"
    by (simp add: example_ext_def)
  have wf: "''/builders/prerender/render.js'' = path_join ?ext [dirname ?ext, ''render.js'']"
    by code_simp
  have g: "[''/about''] \<in> set (groupArray ?rs 3)"
    by code_simp
  have err: "ending (fork ?ext ''/builders/prerender/render.js''
                (''<app-root></app-root>'' # ''/dist/server/en/main.js'' # ''/dist/browser/en''
                   # [''/about''])) = Rejected 1 (Error ''spawn ENOMEM'')"
    by (simp add: example_ext_def)
  have all: "Promise_all ?ps = Rejected 1 (Error ''spawn ENOMEM'')"
    by code_simp
  from worker_error_rejects_execute [OF rs ne ret _ _ _ n bb paths pre html path ex wf g err] all
  show ?thesis by simp
qed

subsection \<open>An undefined server base output path\<close>

lemma snd_bind_run:
  "\<exists>rest. snd (bind_run m f) = snd m @ rest"
  by (cases m; cases "fst m") (auto simp: bind_run_def split: prod.splits)

lemma snd_renderUniversal:
  "snd (renderUniversal ext rs n ctx bres sres)
     = snd (renderOutputPaths ext rs n ctx bres sres (outputPaths bres))"
  by (cases "renderOutputPaths ext rs n ctx bres sres (outputPaths bres)")
    (simp add: renderUniversal_def bind_run_def return_run_def split: outcome.splits)

lemma renderOutputPath_lookup:
  assumes "readFileSync ext (path_join ext [p, ''index.html'']) = Inr html"
    and "baseOutputPath bres = Some bb"
  shows "\<exists>rest. snd (renderOutputPath ext rs n ctx bres sres p)
           = FileRead (path_join ext [p, ''index.html''])
             # ExistsChecked (path_join ext
                 [case baseOutputPath sres of None \<Rightarrow> [] | Some b \<Rightarrow> b,
                  path_relative ext bb p, ''main.js''])
             # rest"
proof (cases "existsSync ext (path_join ext
                 [case baseOutputPath sres of None \<Rightarrow> [] | Some b \<Rightarrow> b,
                  path_relative ext bb p, ''main.js''])")
  case True
  from renderOutputPath_present(2) [OF assms refl True refl, of rs n ctx]
  show ?thesis by simp
next
  case False
  from renderOutputPath_missing [OF assms False, of rs n ctx] show ?thesis by simp
qed

lemma renderUniversal_at_path:
  assumes "outputPaths bres = pre @ p # post"
    and "fst (renderOutputPaths ext rs n ctx bres sres pre) = Returns ()"
  shows "\<exists>rest. snd (renderUniversal ext rs n ctx bres sres)
           = snd (renderOutputPaths ext rs n ctx bres sres pre)
             @ snd (renderOutputPath ext rs n ctx bres sres p) @ rest"
    and "fst (renderOutputPath ext rs n ctx bres sres p) = Throws e
           \<Longrightarrow> fst (renderUniversal ext rs n ctx bres sres) = Throws e"
proof -
  have split: "renderOutputPaths ext rs n ctx bres sres (outputPaths bres)
      = (fst (renderOutputPaths ext rs n ctx bres sres (p # post)),
         snd (renderOutputPaths ext rs n ctx bres sres pre)
         @ snd (renderOutputPaths ext rs n ctx bres sres (p # post)))"
    using assms
    by (simp add: renderOutputPaths_append bind_run_Returns del: renderOutputPaths.simps)
  obtain rest where "snd (renderOutputPaths ext rs n ctx bres sres (p # post))
      = snd (renderOutputPath ext rs n ctx bres sres p) @ rest"
    using snd_bind_run [of "renderOutputPath ext rs n ctx bres sres p"] by auto
  with split show "\<exists>rest. snd (renderUniversal ext rs n ctx bres sres)
           = snd (renderOutputPaths ext rs n ctx bres sres pre)
             @ snd (renderOutputPath ext rs n ctx bres sres p) @ rest"
    by (simp add: snd_renderUniversal)
  assume "fst (renderOutputPath ext rs n ctx bres sres p) = Throws e"
  then have "fst (renderOutputPaths ext rs n ctx bres sres (p # post)) = Throws e"
    by (simp add: bind_run_Throws)
  with split show "fst (renderUniversal ext rs n ctx bres sres) = Throws e"
    by (simp add: renderUniversal_outcome)
qed

text \<open>
  C10. The success flag of the build stage does not depend on the server build's
  \<open>baseOutputPath\<close>: with that field undefined and everything else in order the build
  stage reports success. \<^verbatim>\<open>_renderUniversal\<close> then puts the empty string in its
  place: for each output path it reaches, right after reading the index document it looks
  the bundle up at the join of the empty string, the locale directory and \<^verbatim>\<open>main.js\<close>;
  when that file exists the workers are forked with that path, and when it does not,
  \<^verbatim>\<open>_renderUniversal\<close> throws the ordinary missing-bundle error.
\<close>

theorem undefined_server_baseOutputPath:
  assumes "scheduled_runs ext options ctx = Some (brun, srun)"
    and "result brun = Fulfilled b" and "result srun = Fulfilled s"
    and "stop brun = Fulfilled ()" and "stop srun = Fulfilled ()"
    and "success b" and "success s" and "baseOutputPath b = Some bb"
    and "baseOutputPath s = None"
  shows "fst (scheduleBuilds ext options ctx) = Returns
           \<lparr>success = True, error = or_string (error b) (error s),
            serverResult = Some s, browserResult = Some b\<rparr>
       \<and> (\<forall>rs n p html.
            readFileSync ext (path_join ext [p, ''index.html'']) = Inr html \<longrightarrow>
            take 2 (snd (renderOutputPath ext rs n ctx b s p))
              = [FileRead (path_join ext [p, ''index.html'']),
                 ExistsChecked (path_join ext [[], path_relative ext bb p, ''main.js''])]
            \<and> (\<not> existsSync ext (path_join ext [[], path_relative ext bb p, ''main.js'']) \<longrightarrow>
                 fst (renderOutputPath ext rs n ctx b s p)
                   = Throws (Error (''Could not find the main bundle: ''
                       @ path_join ext [[], path_relative ext bb p, ''main.js'']))))
       \<and> (\<forall>rs n pre p post html.
            outputPaths b = pre @ p # post
            \<and> fst (renderOutputPaths ext rs n ctx b s pre) = Returns ()
            \<and> readFileSync ext (path_join ext [p, ''index.html'']) = Inr html \<longrightarrow>
            (\<exists>rest. snd (renderUniversal ext rs n ctx b s)
               = snd (renderOutputPaths ext rs n ctx b s pre)
                 @ FileRead (path_join ext [p, ''index.html''])
                 # ExistsChecked (path_join ext [[], path_relative ext bb p, ''main.js''])
                 # rest)
            \<and> (\<not> existsSync ext (path_join ext [[], path_relative ext bb p, ''main.js'']) \<longrightarrow>
                 fst (renderUniversal ext rs n ctx b s)
                   = Throws (Error (''Could not find the main bundle: ''
                       @ path_join ext [[], path_relative ext bb p, ''main.js''])))
            \<and> (existsSync ext (path_join ext [[], path_relative ext bb p, ''main.js'']) \<longrightarrow>
                 (\<forall>g \<in> set (groupArray rs n).
                    Forked (path_join ext [dirname ext, ''render.js''])
                      (html # path_join ext [[], path_relative ext bb p, ''main.js''] # p # g)
                    \<in> set (snd (renderUniversal ext rs n ctx b s)))))"
proof (intro conjI allI impI ballI)
  show "fst (scheduleBuilds ext options ctx) = Returns
           \<lparr>success = True, error = or_string (error b) (error s),
            serverResult = Some s, browserResult = Some b\<rparr>"
    using scheduleBuilds_outcome [OF assms(1)] assms(2-8) by (simp add: Promise_all2_def)
next
  fix rs n p html
  assume html: "readFileSync ext (path_join ext [p, ''index.html'']) = Inr html"
  from renderOutputPath_lookup [OF html assms(8), of rs n ctx s]
  show "take 2 (snd (renderOutputPath ext rs n ctx b s p))
              = [FileRead (path_join ext [p, ''index.html'']),
                 ExistsChecked (path_join ext [[], path_relative ext bb p, ''main.js''])]"
    by (auto simp add: assms(9))
next
  fix rs n p html
  assume html: "readFileSync ext (path_join ext [p, ''index.html'']) = Inr html"
    and "\<not> existsSync ext (path_join ext [[], path_relative ext bb p, ''main.js''])"
  with renderOutputPath_missing [OF html assms(8), of s rs n ctx]
  show "fst (renderOutputPath ext rs n ctx b s p)
          = Throws (Error (''Could not find the main bundle: ''
              @ path_join ext [[], path_relative ext bb p, ''main.js'']))"
    by (simp add: assms(9))
next
  fix rs n pre p post html
  assume a: "outputPaths b = pre @ p # post
            \<and> fst (renderOutputPaths ext rs n ctx b s pre) = Returns ()
            \<and> readFileSync ext (path_join ext [p, ''index.html'']) = Inr html"
  then have paths: "outputPaths b = pre @ p # post"
    and pre: "fst (renderOutputPaths ext rs n ctx b s pre) = Returns ()"
    and html: "readFileSync ext (path_join ext [p, ''index.html'']) = Inr html"
    by simp_all
  from renderUniversal_at_path(1) [OF paths pre]
    renderOutputPath_lookup [OF html assms(8), of rs n ctx s]
  show "\<exists>rest. snd (renderUniversal ext rs n ctx b s)
               = snd (renderOutputPaths ext rs n ctx b s pre)
                 @ FileRead (path_join ext [p, ''index.html''])
                 # ExistsChecked (path_join ext [[], path_relative ext bb p, ''main.js''])
                 # rest"
    by (auto simp add: assms(9))
next
  fix rs n pre p post html
  assume a: "outputPaths b = pre @ p # post
            \<and> fst (renderOutputPaths ext rs n ctx b s pre) = Returns ()
            \<and> readFileSync ext (path_join ext [p, ''index.html'']) = Inr html"
    and miss: "\<not> existsSync ext (path_join ext [[], path_relative ext bb p, ''main.js''])"
  from a have paths: "outputPaths b = pre @ p # post"
    and pre: "fst (renderOutputPaths ext rs n ctx b s pre) = Returns ()"
    and html: "readFileSync ext (path_join ext [p, ''index.html'']) = Inr html"
    by simp_all
  have "fst (renderOutputPath ext rs n ctx b s p)
          = Throws (Error (''Could not find the main bundle: ''
              @ path_join ext [[], path_relative ext bb p, ''main.js'']))"
    using renderOutputPath_missing [OF html assms(8), of s rs n ctx] miss
    by (simp add: assms(9))
  then show "fst (renderUniversal ext rs n ctx b s)
          = Throws (Error (''Could not find the main bundle: ''
              @ path_join ext [[], path_relative ext bb p, ''main.js'']))"
    by (rule renderUniversal_at_path(2) [OF paths pre])
next
  fix rs n pre p post html g
  assume a: "outputPaths b = pre @ p # post
            \<and> fst (renderOutputPaths ext rs n ctx b s pre) = Returns ()
            \<and> readFileSync ext (path_join ext [p, ''index.html'']) = Inr html"
    and ex: "existsSync ext (path_join ext [[], path_relative ext bb p, ''main.js''])"
    and g: "g \<in> set (groupArray rs n)"
  from a have paths: "outputPaths b = pre @ p # post"
    and pre: "fst (renderOutputPaths ext rs n ctx b s pre) = Returns ()"
    and html: "readFileSync ext (path_join ext [p, ''index.html'']) = Inr html"
    by simp_all
  have same: "path_join ext [[], path_relative ext bb p, ''main.js'']
      = path_join ext [case baseOutputPath s of None \<Rightarrow> [] | Some x \<Rightarrow> x,
                       path_relative ext bb p, ''main.js'']"
    by (simp add: assms(9))
  have "Forked (path_join ext [dirname ext, ''render.js''])
          (html # path_join ext [[], path_relative ext bb p, ''main.js''] # p # g)
        \<in> set (snd (renderOutputPath ext rs n ctx b s p))"
    using renderOutputPath_present(2) [OF html assms(8) same ex refl, of rs n ctx] g
    by simp
  with renderUniversal_at_path(1) [OF paths pre]
  show "Forked (path_join ext [dirname ext, ''render.js''])
          (html # path_join ext [[], path_relative ext bb p, ''main.js''] # p # g)
        \<in> set (snd (renderUniversal ext rs n ctx b s))"
    by auto
qed

theorem undefined_server_baseOutputPath_witness:
  "fst (scheduleBuilds example_ext example_options
          (example_context (example_run example_browser_output)
             (example_run (example_server_output\<lparr>baseOutputPath := None\<rparr>))))
     = Returns \<lparr>success = True, error = None,
                serverResult = Some (example_server_output\<lparr>baseOutputPath := None\<rparr>),
                browserResult = Some example_browser_output\<rparr>
   \<and> take 2 (snd (renderUniversal example_ext [''/'', ''/about'', ''/contact''] 3
        (example_context (example_run example_browser_output)
           (example_run (example_server_output\<lparr>baseOutputPath := None\<rparr>)))
        example_browser_output (example_server_output\<lparr>baseOutputPath := None\<rparr>)))
     = [FileRead ''/dist/browser/en/index.html'', ExistsChecked ''en/main.js'']
   \<and> fst (renderUniversal example_ext [''/'', ''/about'', ''/contact''] 3
        (example_context (example_run example_browser_output)
           (example_run (example_server_output\<lparr>baseOutputPath := None\<rparr>)))
        example_browser_output (example_server_output\<lparr>baseOutputPath := None\<rparr>))
     = Throws (Error ''Could not find the main bundle: en/main.js'')"
proof -
  let ?s = "example_server_output\<lparr>baseOutputPath := None\<rparr>"
  let ?ctx = "example_context (example_run example_browser_output) (example_run ?s)"
  let ?rs = "[''/'', ''/about'', ''/contact'']"
  let ?brun = "\<lparr>result = Fulfilled example_browser_output, stop = Fulfilled ()\<rparr>"
  let ?srun = "\<lparr>result = Fulfilled ?s, stop = Fulfilled ()\<rparr>"
  have runs: "scheduled_runs example_ext example_options ?ctx = Some (?brun, ?srun)"
    by (simp add: scheduled_runs_def example_ext_def example_options_def example_context_def
          example_run_def)
  have settled: "result ?brun = Fulfilled example_browser_output" "result ?srun = Fulfilled ?s"
    "stop ?brun = Fulfilled ()" "stop ?srun = Fulfilled ()"
    by simp_all
  have facts: "success example_browser_output" "success ?s"
    "baseOutputPath example_browser_output = Some ''/dist/browser''"
    "baseOutputPath ?s = None"
    by (simp_all add: example_browser_output_def example_server_output_def)
  have errs: "or_string (error example_browser_output) (error ?s) = None"
    by (simp add: or_string_def example_browser_output_def example_server_output_def)
  have paths: "outputPaths example_browser_output = [] @ ''/dist/browser/en'' # [''/dist/browser/fr'']"
    by (simp add: example_browser_output_def)
  have pre: "renderOutputPaths example_ext ?rs 3 ?ctx example_browser_output ?s [] = (Returns (), [])"
    by (simp add: return_run_def)
  have html: "readFileSync example_ext (path_join example_ext [''/dist/browser/en'', ''index.html''])
                = Inr ''<app-root></app-root>''"
    by (simp add: example_ext_def)
  have idx: "path_join example_ext [''/dist/browser/en'', ''index.html'']
               = ''/dist/browser/en/index.html''"
    by code_simp
  have path: "path_join example_ext
                [[], path_relative example_ext ''/dist/browser'' ''/dist/browser/en'', ''main.js'']
              = ''en/main.js''"
    by code_simp
  have missing: "\<not> existsSync example_ext ''en/main.js''"
    by (simp add: example_ext_def)
  note inst = undefined_server_baseOutputPath [OF runs settled facts]
  have first: "fst (scheduleBuilds example_ext example_options ?ctx)
     = Returns \<lparr>success = True, error = None, serverResult = Some ?s,
                browserResult = Some example_browser_output\<rparr>"
    using inst [THEN conjunct1] unfolding errs .
  have hyp: "outputPaths example_browser_output = [] @ ''/dist/browser/en'' # [''/dist/browser/fr'']
      \<and> fst (renderOutputPaths example_ext ?rs 3 ?ctx example_browser_output ?s []) = Returns ()
      \<and> readFileSync example_ext (path_join example_ext [''/dist/browser/en'', ''index.html''])
          = Inr ''<app-root></app-root>''"
    using paths pre html by simp
  note step = inst [THEN conjunct2, THEN conjunct2, rule_format, OF hyp, unfolded idx path pre]
  have second: "take 2 (snd (renderUniversal example_ext ?rs 3 ?ctx example_browser_output ?s))
     = [FileRead ''/dist/browser/en/index.html'', ExistsChecked ''en/main.js'']"
    using step [THEN conjunct1] by auto
  have third: "fst (renderUniversal example_ext ?rs 3 ?ctx example_browser_output ?s)
     = Throws (Error ''Could not find the main bundle: en/main.js'')"
    using step [THEN conjunct2, THEN conjunct1, rule_format, OF missing] by simp
  from first second third show ?thesis by blast
qed

end
